theory Spec2Isabelle
  imports Main "HOL-Library.Log_Nat" "HOL-Library.Word"
begin

section \<open>JavaScript values\<close>

text \<open>
  ChittyDLVR is JavaScript. The engines read object literals by string key, test values for
  truthiness with \<open>||\<close> and \<open>!\<close>, and compute scores in IEEE-754 binary64. This section
  fixes the fragment of the language the engines use.
\<close>

subsection \<open>Numbers\<close>

text \<open>
  A JavaScript number is a binary64 value. Finite values are kept as the rational they
  denote (the sign of zero is not tracked: no operation of the engines observes it).
\<close>

datatype jsnum = Num rat | NaN | PosInf | NegInf

definition round_half_even :: "rat \<Rightarrow> int" where
  "round_half_even r =
     (let f = \<lfloor>r\<rfloor>; d = r - of_int f
      in if d < 1 / 2 then f
         else if 1 / 2 < d then f + 1
         else if even f then f else f + 1)"

text \<open>\<open>flog2 x\<close> is the binary exponent of a positive rational: \<open>2 ^ flog2 x \<le> x < 2 ^ (flog2 x + 1)\<close>.\<close>

definition flog2 :: "rat \<Rightarrow> int" where
  "flog2 x =
     (let (p, q) = quotient_of x; e = bitlen p - bitlen q
      in if power_int 2 e \<le> x then e else e - 1)"

text \<open>
  Rounding of an exact result to binary64: 53 significant bits, round to nearest, ties to
  even, gradual underflow below \<open>2 ^ - 1022\<close>, overflow to an infinity. The rounded
  magnitude \<open>m * 2 ^ e\<close> reaches \<open>2 ^ 1024\<close> exactly when \<open>m\<close> has more than
  \<open>1024 - e\<close> bits.
\<close>

definition round_double :: "rat \<Rightarrow> jsnum" where
  "round_double x =
     (if x = 0 then Num 0
      else
        let a = \<bar>x\<bar>;
            e = max (flog2 a) (- 1022) - 52;
            m = round_half_even (a / power_int 2 e);
            y = of_int m * power_int 2 e
        in if 1024 - e < bitlen m then (if 0 < x then PosInf else NegInf)
           else Num (if 0 < x then y else - y))"

text \<open>A decimal literal of the source denotes the binary64 value nearest to it.\<close>

definition literal :: "rat \<Rightarrow> rat" where
  "literal x = (case round_double x of Num y \<Rightarrow> y | _ \<Rightarrow> 0)"

text \<open>The \<open>*\<close> operator on numbers.\<close>

fun js_times :: "jsnum \<Rightarrow> jsnum \<Rightarrow> jsnum" where
  "js_times (Num a) (Num b) = round_double (a * b)"
| "js_times NaN _ = NaN"
| "js_times _ NaN = NaN"
| "js_times (Num a) PosInf = (if a = 0 then NaN else if 0 < a then PosInf else NegInf)"
| "js_times (Num a) NegInf = (if a = 0 then NaN else if 0 < a then NegInf else PosInf)"
| "js_times PosInf (Num b) = (if b = 0 then NaN else if 0 < b then PosInf else NegInf)"
| "js_times NegInf (Num b) = (if b = 0 then NaN else if 0 < b then NegInf else PosInf)"
| "js_times PosInf PosInf = PosInf"
| "js_times PosInf NegInf = NegInf"
| "js_times NegInf PosInf = NegInf"
| "js_times NegInf NegInf = PosInf"

text \<open>\<open>Math.round\<close>: the nearest integer, a tie going towards \<open>+\<infinity>\<close>.\<close>

fun Math_round :: "jsnum \<Rightarrow> jsnum" where
  "Math_round (Num x) = Num (of_int \<lfloor>x + 1 / 2\<rfloor>)"
| "Math_round v = v"

subsection \<open>Values\<close>

text \<open>
  \<open>JTime t\<close> stands for the string \<open>new Date(t).toISOString()\<close> of the instant \<open>t\<close>
  (milliseconds since the epoch). \<open>JBuiltin k\<close> is the member \<open>k\<close> of \<open>Object.prototype\<close>
  (a function, or the prototype object itself for \<open>__proto__\<close>).
\<close>

datatype jsval =
    JUndefined
  | JNull
  | JBool bool
  | JNumber jsnum
  | JString string
  | JTime nat
  | JObject "(string \<times> jsval) list"
  | JArray "jsval list"
  | JBuiltin string

fun truthy :: "jsval \<Rightarrow> bool" where
  "truthy JUndefined = False"
| "truthy JNull = False"
| "truthy (JBool b) = b"
| "truthy (JNumber (Num x)) = (x \<noteq> 0)"
| "truthy (JNumber NaN) = False"
| "truthy (JNumber _) = True"
| "truthy (JString s) = (s \<noteq> [])"
| "truthy (JTime t) = True"
| "truthy (JObject kvs) = True"
| "truthy (JArray vs) = True"
| "truthy (JBuiltin k) = True"

text \<open>\<open>typeof v === 'string'\<close>\<close>

fun is_string :: "jsval \<Rightarrow> bool" where
  "is_string (JString s) = True"
| "is_string (JTime t) = True"
| "is_string _ = False"

text \<open>\<open>a || b\<close>\<close>

definition js_or :: "jsval \<Rightarrow> jsval \<Rightarrow> jsval" where
  "js_or a b = (if truthy a then a else b)"

subsection \<open>Property lookup on object literals\<close>

text \<open>
  \<open>obj[key]\<close> on an object literal finds an own property first and then walks to
  \<open>Object.prototype\<close>, so the twelve names below are found in every table of the engines
  even though no table lists them.
\<close>

definition object_prototype_keys :: "string list" where
  "object_prototype_keys =
     [''constructor'', ''__defineGetter__'', ''__defineSetter__'', ''hasOwnProperty'',
      ''__lookupGetter__'', ''__lookupSetter__'', ''isPrototypeOf'', ''propertyIsEnumerable'',
      ''toString'', ''valueOf'', ''__proto__'', ''toLocaleString'']"

datatype 'a lookup = Own 'a | Inherited string | Absent

definition get_prop :: "(string \<times> 'a) list \<Rightarrow> string \<Rightarrow> 'a lookup" where
  "get_prop obj k =
     (case map_of obj k of
        Some v \<Rightarrow> Own v
      | None \<Rightarrow> if k \<in> set object_prototype_keys then Inherited k else Absent)"

text \<open>
  \<open>table[key] || dflt\<close> on a table of numbers, read as a number: an own entry that is not
  zero, the default for a missing entry or a zero, and \<open>NaN\<close> for an inherited member
  (truthy, so the default is not taken, and not a number).
\<close>

definition number_or :: "(string \<times> rat) list \<Rightarrow> string \<Rightarrow> rat \<Rightarrow> jsnum" where
  "number_or table k dflt =
     (case get_prop table k of
        Own v \<Rightarrow> if v \<noteq> 0 then Num v else Num dflt
      | Inherited _ \<Rightarrow> NaN
      | Absent \<Rightarrow> Num dflt)"

section \<open>The delivery engine (core/dlvr.js)\<close>

subsection \<open>Scoring\<close>

definition methodScores :: "(string \<times> rat) list" where
  "methodScores =
     [(''legalService'', 95), (''inPerson'', 90), (''portal'', 85), (''email'', 70),
      (''sms'', 60), (''api'', 65), (''physical'', 75)]"

definition statusMultipliers :: "(string \<times> rat) list" where
  "statusMultipliers =
     [(''PENDING'', 0), (''SENT'', literal (3 / 10)), (''DELIVERED'', literal (6 / 10)),
      (''OPENED'', literal (75 / 100)), (''ACKNOWLEDGED'', literal (85 / 100)),
      (''RECEIPTED'', 1), (''FAILED'', 0), (''BOUNCED'', 0), (''REFUSED'', literal (5 / 10))]"

definition calculateDeliveryScore :: "string \<Rightarrow> string \<Rightarrow> jsnum" where
  "calculateDeliveryScore method status =
     (let baseScore = number_or methodScores method 50;
          multiplier = number_or statusMultipliers status 0
      in Math_round (js_times baseScore multiplier))"

text \<open>
  The scoring tables as the specification words them, in exact arithmetic, for comparison
  with the binary64 computation above.
\<close>

definition spec_methodBase :: "string \<Rightarrow> rat" where
  "spec_methodBase m =
     (if m = ''legalService'' then 95 else if m = ''inPerson'' then 90
      else if m = ''portal'' then 85 else if m = ''physical'' then 75
      else if m = ''email'' then 70 else if m = ''api'' then 65
      else if m = ''sms'' then 60 else 50)"

definition spec_statusMultiplier :: "string \<Rightarrow> rat" where
  "spec_statusMultiplier s =
     (if s = ''PENDING'' then 0 else if s = ''SENT'' then 3 / 10
      else if s = ''DELIVERED'' then 6 / 10 else if s = ''OPENED'' then 75 / 100
      else if s = ''ACKNOWLEDGED'' then 85 / 100 else if s = ''RECEIPTED'' then 1
      else if s = ''FAILED'' then 0 else if s = ''BOUNCED'' then 0
      else if s = ''REFUSED'' then 5 / 10 else 0)"

definition spec_deliveryScore :: "string \<Rightarrow> string \<Rightarrow> int" where
  "spec_deliveryScore m s = round (spec_methodBase m * spec_statusMultiplier s)"

definition delivery_methods :: "string list" where
  "delivery_methods =
     [''email'', ''sms'', ''portal'', ''api'', ''physical'', ''inPerson'', ''legalService'']"

definition delivery_statuses :: "string list" where
  "delivery_statuses =
     [''PENDING'', ''SENT'', ''DELIVERED'', ''OPENED'', ''ACKNOWLEDGED'', ''RECEIPTED'',
      ''FAILED'', ''BOUNCED'', ''REFUSED'']"

definition method_bases :: "rat list" where
  "method_bases = [95, 90, 85, 75, 70, 65, 60, 50]"

definition status_factors :: "rat list" where
  "status_factors = [0, 3 / 10, 6 / 10, 75 / 100, 85 / 100, 1, 5 / 10]"

subsection \<open>Errors, clock and randomness\<close>

text \<open>
  The engines throw plain \<open>Error\<close> objects with a message; calling something that is not a
  function, or a method of \<open>Object.prototype\<close> without a receiver, throws a \<open>TypeError\<close>
  (its message is the engine's wording); \<open>response.json()\<close> throws a \<open>SyntaxError\<close>, and
  \<open>atob\<close> and \<open>crypto.subtle\<close> throw a \<open>DOMException\<close> with a name and a message.
\<close>

datatype js_error = Error string | TypeError string | SyntaxError string | DOMException string string

fun error_message :: "js_error \<Rightarrow> string" where
  "error_message (Error m) = m"
| "error_message (TypeError m) = m"
| "error_message (SyntaxError m) = m"
| "error_message (DOMException name m) = m"

text \<open>
  What \<open>fetch\<close> can do: reject (a network failure), or resolve to a response with a status,
  a status text and a body that \<open>response.json()\<close> parses or rejects.
\<close>

datatype body = Unparsable string | Json jsval

datatype fetch_outcome = NetworkFailure string | Response nat string body

text \<open>
  What the engines read from outside: the clock, the random bytes and the beacon.
  \<open>clock w k\<close> is the \<open>k\<close>-th reading of \<open>Date.now()\<close> (or \<open>new Date()\<close>), \<open>rng w k\<close> the
  \<open>k\<close>-th byte of randomness drawn, \<open>beacon w k\<close> the outcome of the \<open>k\<close>-th \<open>fetch\<close>; a
  read, a draw or a fetch advances its counter. Nothing is assumed of the three sequences.
\<close>

record world =
  clock :: "nat \<Rightarrow> nat"
  rng :: "nat \<Rightarrow> 8 word"
  beacon :: "nat \<Rightarrow> fetch_outcome"
  reads :: nat
  drawn :: nat
  fetched :: nat

definition Date_now :: "world \<Rightarrow> nat \<times> world" where
  "Date_now w = (clock w (reads w), w\<lparr>reads := Suc (reads w)\<rparr>)"

definition getRandomValues :: "nat \<Rightarrow> world \<Rightarrow> 8 word list \<times> world" where
  "getRandomValues n w = (map (rng w) [drawn w ..< drawn w + n], w\<lparr>drawn := drawn w + n\<rparr>)"

definition fetch :: "world \<Rightarrow> fetch_outcome \<times> world" where
  "fetch w = (beacon w (fetched w), w\<lparr>fetched := Suc (fetched w)\<rparr>)"

subsection \<open>Identifiers\<close>

definition digit_char :: "nat \<Rightarrow> char" where
  "digit_char d = (if d < 10 then char_of (48 + d) else char_of (87 + d))"

fun to_radix36 :: "nat \<Rightarrow> string" where
  "to_radix36 n = (if n < 36 then [digit_char n] else to_radix36 (n div 36) @ [digit_char (n mod 36)])"

declare to_radix36.simps [simp del]

text \<open>\<open>b.toString(16).padStart(2, '0')\<close> for a byte, joined over the array.\<close>

definition hex_byte :: "8 word \<Rightarrow> string" where
  "hex_byte b = [digit_char (unat b div 16), digit_char (unat b mod 16)]"

definition hex_string :: "8 word list \<Rightarrow> string" where
  "hex_string bs = concat (map hex_byte bs)"

text \<open>\<open>toUpperCase\<close> on the ASCII letters, which is all an identifier holds.\<close>

definition upper_char :: "char \<Rightarrow> char" where
  "upper_char c =
     (let n = (of_char c :: nat) in if 97 \<le> n \<and> n \<le> 122 then char_of (n - 32) else c)"

definition toUpperCase :: "string \<Rightarrow> string" where
  "toUpperCase s = map upper_char s"

text \<open>
  \<open>generateDeliveryId\<close>, \<open>generateBulkId\<close>, \<open>generateReceiptId\<close>, \<open>generateServiceId\<close> and
  \<open>generateAffidavitId\<close> differ in the prefix and the number of random bytes only: the bytes
  are drawn first, the clock is read while the template string is built.
\<close>

definition generateId :: "string \<Rightarrow> nat \<Rightarrow> world \<Rightarrow> string \<times> world" where
  "generateId prefix n w =
     (let (bytes, w1) = getRandomValues n w;
          (now, w2) = Date_now w1
      in (toUpperCase (prefix @ ''-'' @ to_radix36 now @ ''-'' @ hex_string bytes), w2))"

definition generateDeliveryId :: "world \<Rightarrow> string \<times> world" where
  "generateDeliveryId = generateId ''DD'' 8"

definition generateBulkId :: "world \<Rightarrow> string \<times> world" where
  "generateBulkId = generateId ''DB'' 4"

definition generateReceiptId :: "world \<Rightarrow> string \<times> world" where
  "generateReceiptId = generateId ''DR'' 6"

definition generateServiceId :: "world \<Rightarrow> string \<times> world" where
  "generateServiceId = generateId ''DS'' 6"

definition generateAffidavitId :: "world \<Rightarrow> string \<times> world" where
  "generateAffidavitId = generateId ''DA'' 6"

section \<open>Delivery channels (core/channels.js)\<close>

record dispatch_opts =
  o_deliveryId :: string
  o_address :: jsval
  o_mintId :: string
  o_timestamp :: nat

definition sendEmail :: "dispatch_opts \<Rightarrow> jsval" where
  "sendEmail opts =
     JObject
      [(''channel'', JString ''email''),
       (''dispatched'', JBool True),
       (''messageId'', JString (''MSG-'' @ o_deliveryId opts)),
       (''to'', o_address opts),
       (''subject'', JString (''Document Delivery: '' @ o_mintId opts)),
       (''trackingPixel'', JBool True),
       (''readReceiptRequested'', JBool True),
       (''links'', JObject
          [(''view'', JString (''https://chitty.cc/view/'' @ o_deliveryId opts)),
           (''receipt'', JString (''https://chitty.cc/receipt/'' @ o_deliveryId opts)),
           (''decline'', JString (''https://chitty.cc/decline/'' @ o_deliveryId opts))]),
       (''timestamp'', JTime (o_timestamp opts))]"

definition sendSMS :: "dispatch_opts \<Rightarrow> jsval" where
  "sendSMS opts =
     JObject
      [(''channel'', JString ''sms''),
       (''dispatched'', JBool True),
       (''messageId'', JString (''SMS-'' @ o_deliveryId opts)),
       (''to'', o_address opts),
       (''body'', JString (''You have a certified document delivery. View: https://chitty.cc/view/''
                           @ o_deliveryId opts)),
       (''deliveryReport'', JBool True),
       (''timestamp'', JTime (o_timestamp opts))]"

text \<open>The portal link expires 30 days after a fresh reading of the clock.\<close>

definition sendPortal :: "dispatch_opts \<Rightarrow> world \<Rightarrow> jsval \<times> world" where
  "sendPortal opts w =
     (let (now, w1) = Date_now w
      in (JObject
           [(''channel'', JString ''portal''),
            (''dispatched'', JBool True),
            (''portalUrl'', JString (''https://portal.chitty.cc/delivery/'' @ o_deliveryId opts)),
            (''requiresAuth'', JBool True),
            (''authMethod'', JString ''ChittyID''),
            (''expiresAt'', JTime (now + 30 * 24 * 60 * 60 * 1000)),
            (''timestamp'', JTime (o_timestamp opts))], w1))"

definition sendAPI :: "dispatch_opts \<Rightarrow> jsval" where
  "sendAPI opts =
     JObject
      [(''channel'', JString ''api''),
       (''dispatched'', JBool True),
       (''webhookUrl'', o_address opts),
       (''payload'', JObject
          [(''event'', JString ''delivery.created''),
           (''deliveryId'', JString (o_deliveryId opts)),
           (''mintId'', JString (o_mintId opts)),
           (''timestamp'', JTime (o_timestamp opts))]),
       (''retries'', JNumber (Num 3)),
       (''timestamp'', JTime (o_timestamp opts))]"

definition sendPhysical :: "dispatch_opts \<Rightarrow> jsval" where
  "sendPhysical opts =
     JObject
      [(''channel'', JString ''physical''),
       (''dispatched'', JBool True),
       (''carrier'', JNull),
       (''trackingNumber'', JNull),
       (''address'', o_address opts),
       (''certified'', JBool True),
       (''returnReceiptRequested'', JBool True),
       (''timestamp'', JTime (o_timestamp opts))]"

definition recordInPerson :: "dispatch_opts \<Rightarrow> jsval" where
  "recordInPerson opts =
     JObject
      [(''channel'', JString ''inPerson''),
       (''dispatched'', JBool True),
       (''witnessRequired'', JBool True),
       (''witness'', JNull),
       (''location'', JNull),
       (''geoVerified'', JBool False),
       (''timestamp'', JTime (o_timestamp opts))]"

definition initiateLegalService :: "dispatch_opts \<Rightarrow> jsval" where
  "initiateLegalService opts =
     JObject
      [(''channel'', JString ''legalService''),
       (''dispatched'', JBool True),
       (''serviceType'', JNull),
       (''processServer'', JNull),
       (''jurisdiction'', JNull),
       (''affidavitRequired'', JBool True),
       (''timestamp'', JTime (o_timestamp opts))]"

text \<open>
  \<open>getHandler\<close> reads the handler table by the method name and falls back to the email
  handler when the table gives nothing truthy. A name of \<open>Object.prototype\<close> gives that
  member instead of a handler.
\<close>

datatype handler =
    SendEmail | SendSMS | SendPortal | SendAPI | SendPhysical | RecordInPerson
  | InitiateLegalService | PrototypeMember string

definition handlers :: "(string \<times> handler) list" where
  "handlers =
     [(''email'', SendEmail), (''sms'', SendSMS), (''portal'', SendPortal), (''api'', SendAPI),
      (''physical'', SendPhysical), (''inPerson'', RecordInPerson),
      (''legalService'', InitiateLegalService)]"

definition getHandler :: "string \<Rightarrow> handler" where
  "getHandler method =
     (case get_prop handlers method of
        Own h \<Rightarrow> h
      | Inherited k \<Rightarrow> PrototypeMember k
      | Absent \<Rightarrow> SendEmail)"

text \<open>
  Calling what \<open>getHandler\<close> returned, as \<open>handler({deliveryId, address, mintId, timestamp})\<close>
  with no receiver: \<open>Object\<close> returns its argument, \<open>Object.prototype.toString\<close> names the
  missing receiver, the prototype object is not callable and the other members reject the
  missing receiver.
\<close>

definition call_handler :: "handler \<Rightarrow> dispatch_opts \<Rightarrow> world \<Rightarrow> (js_error + jsval) \<times> world" where
  "call_handler h opts w =
     (case h of
        SendEmail \<Rightarrow> (Inr (sendEmail opts), w)
      | SendSMS \<Rightarrow> (Inr (sendSMS opts), w)
      | SendPortal \<Rightarrow> (let (v, w1) = sendPortal opts w in (Inr v, w1))
      | SendAPI \<Rightarrow> (Inr (sendAPI opts), w)
      | SendPhysical \<Rightarrow> (Inr (sendPhysical opts), w)
      | RecordInPerson \<Rightarrow> (Inr (recordInPerson opts), w)
      | InitiateLegalService \<Rightarrow> (Inr (initiateLegalService opts), w)
      | PrototypeMember k \<Rightarrow>
          if k = ''constructor'' then
            (Inr (JObject [(''deliveryId'', JString (o_deliveryId opts)),
                           (''address'', o_address opts),
                           (''mintId'', JString (o_mintId opts)),
                           (''timestamp'', JTime (o_timestamp opts))]), w)
          else if k = ''toString'' then (Inr (JString ''[object Undefined]''), w)
          else if k = ''__proto__'' then (Inl (TypeError ''handler is not a function''), w)
          else (Inl (TypeError ''Cannot convert undefined or null to object''), w))"

definition dispatch :: "string \<Rightarrow> dispatch_opts \<Rightarrow> world \<Rightarrow> (js_error + jsval) \<times> world" where
  "dispatch method opts w = call_handler (getHandler method) opts w"

section \<open>The delivery orchestrator (core/dlvr.js)\<close>

record dlvr_config =
  apiKey :: "string option"
  baseUrl :: string
  chittyId :: "string option"

text \<open>
  The options of \<open>send\<close>. \<open>mintId\<close>, \<open>to\<close> and \<open>address\<close> are whatever the caller passed;
  \<open>method\<close> is a name, \<open>None\<close> when the caller left it out (the default \<open>'email'\<close> applies).
\<close>

record send_options =
  s_mintId :: jsval
  s_to :: jsval
  s_method :: "string option"
  s_address :: jsval

record status_entry =
  se_status :: string
  se_timestamp :: nat
  se_actor :: string

record delivery_proof =
  dp_pillar :: string
  dp_mintId :: string
  dp_deliveryId :: string
  dp_method :: string
  dp_score :: jsnum

record delivery =
  d_deliveryId :: string
  d_mintId :: string
  d_from :: string
  d_to :: jsval
  d_method :: string
  d_address :: jsval
  d_dispatch :: jsval
  d_status :: string
  d_statusHistory :: "status_entry list"
  d_proof :: delivery_proof
  d_createdAt :: nat
  d_sentAt :: nat
  d_deliveredAt :: jsval
  d_receiptedAt :: jsval
  d_trackingUrl :: string
  d_receiptUrl :: string

text \<open>The string behind a value that passed \<open>typeof mintId === 'string'\<close>.\<close>

fun string_of :: "jsval \<Rightarrow> string" where
  "string_of (JString s) = s"
| "string_of _ = []"

definition send :: "dlvr_config \<Rightarrow> send_options \<Rightarrow> world \<Rightarrow> (js_error + delivery) \<times> world" where
  "send cfg options w =
     (let m = (case s_method options of None \<Rightarrow> ''email'' | Some x \<Rightarrow> x) in
      if \<not> truthy (s_mintId options) \<or> \<not> is_string (s_mintId options)
      then (Inl (Error ''mintId is required and must be a string''), w)
      else
        let mint = string_of (s_mintId options);
            (deliveryId, w1) = generateDeliveryId w;
            (timestamp, w2) = Date_now w1;
            (dispatched, w3) =
               dispatch m \<lparr>o_deliveryId = deliveryId, o_address = s_address options,
                            o_mintId = mint, o_timestamp = timestamp\<rparr> w2
        in case dispatched of
             Inl e \<Rightarrow> (Inl e, w3)
           | Inr meta \<Rightarrow>
               let (sentStamp, w4) = Date_now w3;
                   (sentAt, w5) = Date_now w4
               in (Inr \<lparr>d_deliveryId = deliveryId,
                         d_mintId = mint,
                         d_from = (case chittyId cfg of
                                     None \<Rightarrow> ''anonymous''
                                   | Some c \<Rightarrow> if c = [] then ''anonymous'' else c),
                         d_to = s_to options,
                         d_method = m,
                         d_address = s_address options,
                         d_dispatch = meta,
                         d_status = ''SENT'',
                         d_statusHistory =
                           [\<lparr>se_status = ''PENDING'', se_timestamp = timestamp, se_actor = ''system''\<rparr>,
                            \<lparr>se_status = ''SENT'', se_timestamp = sentStamp, se_actor = ''system''\<rparr>],
                         d_proof = \<lparr>dp_pillar = ''delivery'', dp_mintId = mint,
                                    dp_deliveryId = deliveryId, dp_method = m,
                                    dp_score = calculateDeliveryScore m ''SENT''\<rparr>,
                         d_createdAt = timestamp,
                         d_sentAt = sentAt,
                         d_deliveredAt = JNull,
                         d_receiptedAt = JNull,
                         d_trackingUrl = ''https://chitty.cc/track/'' @ deliveryId,
                         d_receiptUrl = ''https://chitty.cc/receipt/'' @ deliveryId\<rparr>, w5))"

subsection \<open>Bulk send\<close>

text \<open>
  A recipient is an object spread into the options of \<open>send\<close> after the batch's \<open>mintId\<close>:
  an own \<open>mintId\<close> of the recipient (\<open>r_mintId = Some v\<close>) replaces the batch's.
\<close>

record recipient =
  r_to :: jsval
  r_method :: "string option"
  r_address :: jsval
  r_mintId :: "jsval option"

record failure =
  f_deliveryId :: jsval
  f_to :: jsval
  f_method :: "string option"
  f_status :: string
  f_error :: string

datatype bulk_entry = Delivered delivery | Failed failure

fun entry_status :: "bulk_entry \<Rightarrow> string" where
  "entry_status (Delivered d) = d_status d"
| "entry_status (Failed f) = f_status f"

record bulk_batch =
  bulkId :: string
  b_mintId :: string
  totalRecipients :: nat
  sent :: nat
  failed :: nat
  deliveries :: "bulk_entry list"
  b_createdAt :: nat

definition spread_recipient :: "string \<Rightarrow> recipient \<Rightarrow> send_options" where
  "spread_recipient mint r =
     \<lparr>s_mintId = (case r_mintId r of None \<Rightarrow> JString mint | Some v \<Rightarrow> v),
      s_to = r_to r, s_method = r_method r, s_address = r_address r\<rparr>"

text \<open>The body of the \<open>for (const recipient of recipients)\<close> loop, one recipient per step.\<close>

fun bulk_loop :: "dlvr_config \<Rightarrow> string \<Rightarrow> recipient list \<Rightarrow> world \<Rightarrow> bulk_entry list \<times> world" where
  "bulk_loop cfg mint [] w = ([], w)"
| "bulk_loop cfg mint (r # rs) w =
     (case send cfg (spread_recipient mint r) w of
        (Inr result, w1) \<Rightarrow>
          (let (results, w2) = bulk_loop cfg mint rs w1 in (Delivered result # results, w2))
      | (Inl error, w1) \<Rightarrow>
          (let (results, w2) = bulk_loop cfg mint rs w1
           in (Failed \<lparr>f_deliveryId = JNull, f_to = r_to r, f_method = r_method r,
                        f_status = ''FAILED'', f_error = error_message error\<rparr> # results, w2)))"

definition bulkSend ::
  "dlvr_config \<Rightarrow> jsval \<Rightarrow> recipient list \<Rightarrow> world \<Rightarrow> (js_error + bulk_batch) \<times> world" where
  "bulkSend cfg mintId recipients w =
     (if \<not> truthy mintId \<or> \<not> is_string mintId
      then (Inl (Error ''mintId is required and must be a string''), w)
      else if length recipients = 0
      then (Inl (Error ''recipients must be a non-empty array''), w)
      else
        let mint = string_of mintId;
            (results, w1) = bulk_loop cfg mint recipients w;
            (bid, w2) = generateBulkId w1;
            (created, w3) = Date_now w2
        in (Inr \<lparr>bulkId = bid,
                  b_mintId = mint,
                  totalRecipients = length recipients,
                  sent = length (filter (\<lambda>r. entry_status r = ''SENT'') results),
                  failed = length (filter (\<lambda>r. entry_status r = ''FAILED'') results),
                  deliveries = results,
                  b_createdAt = created\<rparr>, w3))"

text \<open>What an entry of \<open>deliveries\<close> records of the recipient it was made for.\<close>

fun entry_for :: "recipient \<Rightarrow> bulk_entry \<Rightarrow> bool" where
  "entry_for r (Delivered d) =
     (d_to d = r_to r \<and> d_address d = r_address r \<and>
      d_method d = (case r_method r of None \<Rightarrow> ''email'' | Some m \<Rightarrow> m))"
| "entry_for r (Failed f) = (f_to f = r_to r \<and> f_method f = r_method r)"

section \<open>The legal-service engine (core/service.js)\<close>

definition VALID_SERVICE_TYPES :: "string list" where
  "VALID_SERVICE_TYPES = [''personal'', ''substituted'', ''constructive'', ''publication'']"

text \<open>\<open>Array.prototype.join\<close> on strings.\<close>

fun join :: "string \<Rightarrow> string list \<Rightarrow> string" where
  "join sep [] = []"
| "join sep [x] = x"
| "join sep (x # y # ys) = x @ sep @ join sep (y # ys)"

subsection \<open>Requirements and attempts\<close>

definition reqs :: "(string \<times> jsval) list" where
  "reqs =
     [(''personal'', JObject
         [(''inPerson'', JBool True), (''identifyRespondent'', JBool True),
          (''handDeliver'', JBool True), (''affidavitRequired'', JBool True),
          (''witnessOptional'', JBool True)]),
      (''substituted'', JObject
         [(''atAddress'', JBool True), (''competentPerson'', JBool True),
          (''mailCopy'', JBool True), (''affidavitRequired'', JBool True),
          (''courtOrderMayBeRequired'', JBool True)]),
      (''constructive'', JObject
         [(''postedOnDoor'', JBool True), (''mailCopy'', JBool True),
          (''affidavitRequired'', JBool True), (''courtOrderRequired'', JBool True)]),
      (''publication'', JObject
         [(''newspaperNotice'', JBool True), (''courtOrderRequired'', JBool True),
          (''durationWeeks'', JNumber (Num 4)), (''affidavitRequired'', JBool True),
          (''proofOfPublication'', JBool True)])]"

definition getRequirements :: "string \<Rightarrow> jsval" where
  "getRequirements serviceType =
     (case get_prop reqs serviceType of
        Own r \<Rightarrow> r
      | Inherited k \<Rightarrow> JBuiltin k
      | Absent \<Rightarrow> (case get_prop reqs ''personal'' of Own r \<Rightarrow> r | _ \<Rightarrow> JUndefined))"

definition attempts_table :: "(string \<times> rat) list" where
  "attempts_table =
     [(''personal'', 3), (''substituted'', 2), (''constructive'', 1), (''publication'', 1)]"

definition getMaxAttempts :: "string \<Rightarrow> jsval" where
  "getMaxAttempts serviceType =
     (case get_prop attempts_table serviceType of
        Own n \<Rightarrow> if n \<noteq> 0 then JNumber (Num n) else JNumber (Num 3)
      | Inherited k \<Rightarrow> JBuiltin k
      | Absent \<Rightarrow> JNumber (Num 3))"

text \<open>
  Reading a property of a value. \<open>null\<close> and \<open>undefined\<close> have none and the read throws;
  an object literal answers as \<open>get_prop\<close> says; for the other values only the names of
  \<open>Object.prototype\<close> are answered here, which is exact for every name the engines read
  (\<open>round\<close>, \<open>randomness\<close>, \<open>signature\<close>, \<open>courtOrderRequired\<close>): no wrapper prototype
  defines them.
\<close>

definition member :: "jsval \<Rightarrow> string \<Rightarrow> js_error + jsval" where
  "member v k =
     (case v of
        JUndefined \<Rightarrow> Inl (TypeError (''Cannot read properties of undefined (reading '' @ k @ '')''))
      | JNull \<Rightarrow> Inl (TypeError (''Cannot read properties of null (reading '' @ k @ '')''))
      | JObject kvs \<Rightarrow>
          Inr (case get_prop kvs k of Own x \<Rightarrow> x | Inherited n \<Rightarrow> JBuiltin n | Absent \<Rightarrow> JUndefined)
      | _ \<Rightarrow> Inr (if k \<in> set object_prototype_keys then JBuiltin k else JUndefined))"

subsection \<open>Initiating service\<close>

record initiate_options =
  i_mintId :: jsval
  i_respondent :: jsval
  i_serviceType :: "string option"
  i_address :: jsval
  i_jurisdiction :: jsval
  i_timestamp :: jsval

record history_entry =
  h_status :: string
  h_timestamp :: jsval
  h_actor :: string

record service_proof =
  sp_pillar :: string
  sp_method :: string
  sp_serviceType :: string
  sp_score :: jsnum
  sp_affidavitFiled :: bool

record service_case =
  serviceId :: string
  sc_mintId :: jsval
  sc_respondent :: jsval
  sc_serviceType :: string
  sc_address :: jsval
  sc_jurisdiction :: jsval
  sc_processServer :: jsval
  sc_serverAssigned :: bool
  sc_status :: string
  sc_statusHistory :: "history_entry list"
  sc_attempts :: "jsval list"
  maxAttempts :: jsval
  requirements :: jsval
  sc_proof :: service_proof
  sc_createdAt :: jsval
  sc_servedAt :: jsval
  sc_affidavitFiledAt :: jsval
  sc_trackingUrl :: string

definition initiate :: "initiate_options \<Rightarrow> world \<Rightarrow> (js_error + service_case) \<times> world" where
  "initiate options w =
     (let serviceType = (case i_serviceType options of None \<Rightarrow> ''personal'' | Some t \<Rightarrow> t) in
      if serviceType \<notin> set VALID_SERVICE_TYPES
      then (Inl (Error (''Invalid service type: '' @ serviceType @ ''. Valid types: ''
                        @ join '', '' VALID_SERVICE_TYPES)), w)
      else
        let (sid, w1) = generateServiceId w
        in (Inr \<lparr>serviceId = sid,
                  sc_mintId = i_mintId options,
                  sc_respondent = i_respondent options,
                  sc_serviceType = serviceType,
                  sc_address = i_address options,
                  sc_jurisdiction = i_jurisdiction options,
                  sc_processServer = JNull,
                  sc_serverAssigned = False,
                  sc_status = ''INITIATED'',
                  sc_statusHistory =
                    [\<lparr>h_status = ''INITIATED'', h_timestamp = i_timestamp options,
                      h_actor = ''system''\<rparr>],
                  sc_attempts = [],
                  maxAttempts = getMaxAttempts serviceType,
                  requirements = getRequirements serviceType,
                  sc_proof = \<lparr>sp_pillar = ''delivery'', sp_method = ''legalService'',
                              sp_serviceType = serviceType, sp_score = Num 0,
                              sp_affidavitFiled = False\<rparr>,
                  sc_createdAt = i_timestamp options,
                  sc_servedAt = JNull,
                  sc_affidavitFiledAt = JNull,
                  sc_trackingUrl = ''https://chitty.cc/service/'' @ sid\<rparr>, w1))"

text \<open>
  \<open>ChittyDLVR.serve(mintId, options)\<close> spreads the caller's options over the \<open>mintId\<close> and
  stamps the call: an own \<open>mintId\<close> of the options replaces the argument, the timestamp is
  always the clock's.
\<close>

record serve_options =
  sv_respondent :: jsval
  sv_serviceType :: "string option"
  sv_address :: jsval
  sv_jurisdiction :: jsval
  sv_mintId :: "jsval option"

definition serve :: "jsval \<Rightarrow> serve_options \<Rightarrow> world \<Rightarrow> (js_error + service_case) \<times> world" where
  "serve mint options w =
     (let (now, w1) = Date_now w
      in initiate \<lparr>i_mintId = (case sv_mintId options of None \<Rightarrow> mint | Some v \<Rightarrow> v),
                   i_respondent = sv_respondent options,
                   i_serviceType = sv_serviceType options,
                   i_address = sv_address options,
                   i_jurisdiction = sv_jurisdiction options,
                   i_timestamp = JTime now\<rparr> w1)"

subsection \<open>Affidavits\<close>

text \<open>
  The \<open>details\<close> object of an affidavit, each property as the caller gave it (\<open>JUndefined\<close>
  when absent). The flags are read for truthiness only.
\<close>

record affidavit_details =
  dt_jurisdiction :: jsval
  dt_servedTo :: jsval
  dt_relationship :: jsval
  dt_location :: jsval
  dt_notarized :: jsval
  dt_witnessPresent :: jsval
  dt_geoVerified :: jsval
  dt_servedAt :: jsval

definition no_details :: affidavit_details where
  "no_details =
     \<lparr>dt_jurisdiction = JUndefined, dt_servedTo = JUndefined, dt_relationship = JUndefined,
      dt_location = JUndefined, dt_notarized = JUndefined, dt_witnessPresent = JUndefined,
      dt_geoVerified = JUndefined, dt_servedAt = JUndefined\<rparr>"

text \<open>
  The three score functions. A base is read from a table by the service type (with a
  default for a type the table does not list), then each bonus is added under
  \<open>Math.min(100, _)\<close>, in the order of the source. The bases and bonuses are small integers,
  on which binary64 addition is exact. For a name of \<open>Object.prototype\<close> the base is that
  member: it is returned as it is when no bonus applies, and a bonus makes it \<open>NaN\<close>.
\<close>

definition affidavit_base :: "(string \<times> rat) list" where
  "affidavit_base =
     [(''personal'', 95), (''substituted'', 80), (''constructive'', 70), (''publication'', 65)]"

definition technical_base :: "(string \<times> rat) list" where
  "technical_base =
     [(''personal'', 90), (''substituted'', 75), (''constructive'', 65), (''publication'', 60)]"

definition arguable_base :: "(string \<times> rat) list" where
  "arguable_base =
     [(''personal'', 95), (''substituted'', 85), (''constructive'', 75), (''publication'', 70)]"

definition scoreAffidavit :: "string \<Rightarrow> affidavit_details \<Rightarrow> jsval" where
  "scoreAffidavit serviceType details =
     (case get_prop affidavit_base serviceType of
        Inherited k \<Rightarrow>
          if truthy (dt_notarized details) \<or> truthy (dt_witnessPresent details)
          then JNumber NaN else JBuiltin k
      | entry \<Rightarrow>
          let score = (case entry of Own v \<Rightarrow> if v \<noteq> 0 then v else 70 | _ \<Rightarrow> 70);
              score = (if truthy (dt_notarized details) then min 100 (score + 5) else score);
              score = (if truthy (dt_witnessPresent details) then min 100 (score + 3) else score)
          in JNumber (Num score))"

definition scoreTechnical :: "string \<Rightarrow> affidavit_details \<Rightarrow> jsval" where
  "scoreTechnical serviceType details =
     (case get_prop technical_base serviceType of
        Inherited k \<Rightarrow> if truthy (dt_geoVerified details) then JNumber NaN else JBuiltin k
      | entry \<Rightarrow>
          let score = (case entry of Own v \<Rightarrow> if v \<noteq> 0 then v else 65 | _ \<Rightarrow> 65);
              score = (if truthy (dt_geoVerified details) then min 100 (score + 5) else score)
          in JNumber (Num score))"

definition scoreArguable :: "string \<Rightarrow> affidavit_details \<Rightarrow> jsval" where
  "scoreArguable serviceType details =
     (case get_prop arguable_base serviceType of
        Inherited k \<Rightarrow>
          if truthy (dt_notarized details) \<or> truthy (dt_witnessPresent details)
          then JNumber NaN else JBuiltin k
      | entry \<Rightarrow>
          let score = (case entry of Own v \<Rightarrow> if v \<noteq> 0 then v else 70 | _ \<Rightarrow> 70);
              score = (if truthy (dt_notarized details) then min 100 (score + 5) else score);
              score = (if truthy (dt_witnessPresent details) then min 100 (score + 5) else score)
          in JNumber (Num score))"

record affidavit_options =
  a_serviceId :: jsval
  a_processServer :: jsval
  a_serviceType :: "string option"
  a_details :: "affidavit_details option"
  a_timestamp :: jsval

record affidavit_proof =
  ap_pillar :: string
  ap_method :: string
  ap_score :: jsval
  ap_technical :: jsval
  ap_arguable :: jsval

record affidavit =
  affidavitId :: string
  af_serviceId :: jsval
  af_processServer :: jsval
  af_serverLicensed :: bool
  af_serverJurisdiction :: jsval
  af_serviceType :: string
  af_servedTo :: jsval
  af_relationship :: jsval
  af_location :: jsval
  af_sworn :: bool
  af_notarized :: jsval
  af_witnessPresent :: jsval
  af_proof :: affidavit_proof
  af_status :: string
  af_servedAt :: jsval
  af_filedAt :: jsval
  af_createdAt :: jsval
  af_verifyUrl :: string

definition recordAffidavit :: "affidavit_options \<Rightarrow> world \<Rightarrow> affidavit \<times> world" where
  "recordAffidavit options w =
     (let serviceType = (case a_serviceType options of None \<Rightarrow> ''personal'' | Some t \<Rightarrow> t);
          details = (case a_details options of None \<Rightarrow> no_details | Some d \<Rightarrow> d);
          (aid, w1) = generateAffidavitId w
      in (\<lparr>affidavitId = aid,
           af_serviceId = a_serviceId options,
           af_processServer = a_processServer options,
           af_serverLicensed = True,
           af_serverJurisdiction = js_or (dt_jurisdiction details) JNull,
           af_serviceType = serviceType,
           af_servedTo = js_or (dt_servedTo details) JNull,
           af_relationship = js_or (dt_relationship details) JNull,
           af_location = js_or (dt_location details) JNull,
           af_sworn = True,
           af_notarized = js_or (dt_notarized details) (JBool False),
           af_witnessPresent = js_or (dt_witnessPresent details) (JBool False),
           af_proof = \<lparr>ap_pillar = ''delivery'', ap_method = ''legalService'',
                        ap_score = scoreAffidavit serviceType details,
                        ap_technical = scoreTechnical serviceType details,
                        ap_arguable = scoreArguable serviceType details\<rparr>,
           af_status = ''FILED'',
           af_servedAt = js_or (dt_servedAt details) (a_timestamp options),
           af_filedAt = a_timestamp options,
           af_createdAt = a_timestamp options,
           af_verifyUrl = ''https://chitty.cc/affidavit/'' @ aid\<rparr>, w1))"

text \<open>
  The per-axis tables and bonuses as the specification words them: base by service type,
  plus the bonuses that apply, capped at 100.
\<close>

definition spec_admissibility_base :: "string \<Rightarrow> rat" where
  "spec_admissibility_base t =
     (if t = ''personal'' then 95 else if t = ''substituted'' then 80
      else if t = ''constructive'' then 70 else 65)"

definition spec_technical_base :: "string \<Rightarrow> rat" where
  "spec_technical_base t =
     (if t = ''personal'' then 90 else if t = ''substituted'' then 75
      else if t = ''constructive'' then 65 else 60)"

definition spec_persuasive_base :: "string \<Rightarrow> rat" where
  "spec_persuasive_base t =
     (if t = ''personal'' then 95 else if t = ''substituted'' then 85
      else if t = ''constructive'' then 75 else 70)"

definition plus_if :: "jsval \<Rightarrow> rat \<Rightarrow> rat" where
  "plus_if flag n = (if truthy flag then n else 0)"

definition spec_admissibility :: "string \<Rightarrow> affidavit_details \<Rightarrow> rat" where
  "spec_admissibility t d =
     min 100 (spec_admissibility_base t + plus_if (dt_notarized d) 5 + plus_if (dt_witnessPresent d) 3)"

definition spec_technical :: "string \<Rightarrow> affidavit_details \<Rightarrow> rat" where
  "spec_technical t d = min 100 (spec_technical_base t + plus_if (dt_geoVerified d) 5)"

definition spec_persuasive :: "string \<Rightarrow> affidavit_details \<Rightarrow> rat" where
  "spec_persuasive t d =
     min 100 (spec_persuasive_base t + plus_if (dt_notarized d) 5 + plus_if (dt_witnessPresent d) 5)"

section \<open>The receipt engine (core/receipt.js)\<close>

subsection \<open>Bytes, Base64 and UTF-8\<close>

type_synonym bytes = "8 word list"

text \<open>
  A binary string (every code unit below 256) is a \<open>string\<close>; \<open>String.fromCharCode\<close> and
  \<open>charCodeAt\<close> move between it and a byte array.
\<close>

definition binary_of_bytes :: "bytes \<Rightarrow> string" where
  "binary_of_bytes bs = map (\<lambda>b. char_of (unat b)) bs"

definition bytes_of_binary :: "string \<Rightarrow> bytes" where
  "bytes_of_binary s = map (\<lambda>c. of_nat (of_char c)) s"

definition b64_alphabet :: string where
  "b64_alphabet = ''ABCDEFGHIJKLMNOPQRSTUVWXYZabcdefghijklmnopqrstuvwxyz0123456789+/''"

text \<open>The character of a sextet (always below 64 where it is used).\<close>

definition b64_char :: "nat \<Rightarrow> char" where
  "b64_char n = b64_alphabet ! (n mod 64)"

definition b64_index :: "char \<Rightarrow> nat option" where
  "b64_index c = map_of (zip b64_alphabet [0 ..< 64]) c"

text \<open>\<open>btoa\<close>: three bytes give four characters, the last group is padded with \<open>=\<close>.\<close>

fun btoa :: "string \<Rightarrow> string" where
  "btoa (a # b # c # rest) =
     (let x = (of_char a :: nat); y = (of_char b :: nat); z = (of_char c :: nat)
      in [b64_char (x div 4), b64_char ((x mod 4) * 16 + y div 16),
          b64_char ((y mod 16) * 4 + z div 64), b64_char (z mod 64)] @ btoa rest)"
| "btoa [a, b] =
     (let x = (of_char a :: nat); y = (of_char b :: nat)
      in [b64_char (x div 4), b64_char ((x mod 4) * 16 + y div 16),
          b64_char ((y mod 16) * 4), CHR ''=''])"
| "btoa [a] =
     (let x = (of_char a :: nat)
      in [b64_char (x div 4), b64_char ((x mod 4) * 16), CHR ''='', CHR ''=''])"
| "btoa [] = []"

text \<open>
  \<open>atob\<close> is the forgiving Base64 decoding of the HTML standard: ASCII whitespace is
  removed; when the length is then a multiple of four, one or two final \<open>=\<close> are removed;
  a length that leaves remainder one, or a character outside the alphabet, is an
  \<open>InvalidCharacterError\<close>; a final group of two or three characters gives one or two
  bytes, and the bits left over are discarded without a check.
\<close>

definition ascii_whitespace :: "char \<Rightarrow> bool" where
  "ascii_whitespace c = ((of_char c :: nat) \<in> {9, 10, 12, 13, 32})"

definition strip_padding :: "string \<Rightarrow> string" where
  "strip_padding d =
     (if length d mod 4 = 0 then
        (case rev d of
           a # b # r \<Rightarrow>
             if a = CHR ''='' \<and> b = CHR ''='' then rev r
             else if a = CHR ''='' then rev (b # r)
             else d
         | [a] \<Rightarrow> if a = CHR ''='' then [] else d
         | [] \<Rightarrow> d)
      else d)"

fun decode_sextets :: "nat list \<Rightarrow> nat list" where
  "decode_sextets (a # b # c # d # rest) =
     [a * 4 + b div 16, (b mod 16) * 16 + c div 4, (c mod 4) * 64 + d] @ decode_sextets rest"
| "decode_sextets [a, b, c] = [a * 4 + b div 16, (b mod 16) * 16 + c div 4]"
| "decode_sextets [a, b] = [a * 4 + b div 16]"
| "decode_sextets _ = []"

definition not_base64 :: js_error where
  "not_base64 =
     DOMException ''InvalidCharacterError'' ''The string to be decoded is not correctly encoded.''"

definition atob :: "string \<Rightarrow> js_error + string" where
  "atob s =
     (let d = strip_padding (filter (\<lambda>c. \<not> ascii_whitespace c) s)
      in if length d mod 4 = 1 then Inl not_base64
         else (case those (map b64_index d) of
                 None \<Rightarrow> Inl not_base64
               | Some sextets \<Rightarrow> Inr (map char_of (decode_sextets sextets))))"

definition bufferToBase64 :: "bytes \<Rightarrow> string" where
  "bufferToBase64 buffer = btoa (binary_of_bytes buffer)"

text \<open>\<open>Uint8Array.from(atob(s), c => c.charCodeAt(0))\<close>\<close>

definition base64_to_bytes :: "string \<Rightarrow> js_error + bytes" where
  "base64_to_bytes s = (case atob s of Inl e \<Rightarrow> Inl e | Inr bin \<Rightarrow> Inr (bytes_of_binary bin))"

text \<open>
  \<open>TextEncoder.encode\<close> is UTF-8. A \<open>string\<close> here holds code units below 256, which take
  one byte below 128 and two bytes from 128 on.
\<close>

definition utf8_char :: "char \<Rightarrow> bytes" where
  "utf8_char c =
     (let n = (of_char c :: nat)
      in if n < 128 then [of_nat n] else [of_nat (192 + n div 64), of_nat (128 + n mod 64)])"

definition encode :: "string \<Rightarrow> bytes" where
  "encode s = concat (map utf8_char s)"

subsection \<open>The platform's cryptography and serialisation\<close>

text \<open>
  \<open>crypto.subtle\<close> and \<open>JSON.stringify\<close> are the platform's; the engine is a function of
  them. Keys are kept as their key material. \<open>subtle_generateKey\<close> and \<open>subtle_sign\<close> take the
  randomness they consume (ECDSA signing is randomised). \<open>subtle_importJwkPrivate\<close> is
  \<open>JSON.parse\<close> (for a string) followed by \<open>importKey('jwk', keyData, ..., ['sign'])\<close>;
  \<open>subtle_importJwkPublic\<close> is the import of the same key data without \<open>d\<close> for
  \<open>['verify']\<close>.
\<close>

record platform =
  subtle_generateKey :: "bytes \<Rightarrow> js_error + (bytes \<times> bytes)"
  subtle_importJwkPrivate :: "string \<Rightarrow> js_error + bytes"
  subtle_importJwkPublic :: "string \<Rightarrow> js_error + bytes"
  subtle_sign :: "bytes \<Rightarrow> bytes \<Rightarrow> bytes \<Rightarrow> bytes"
  subtle_verify :: "bytes \<Rightarrow> bytes \<Rightarrow> bytes \<Rightarrow> bool"
  subtle_exportSpki :: "bytes \<Rightarrow> bytes"
  subtle_importSpki :: "bytes \<Rightarrow> js_error + bytes"
  JSON_stringify :: "(string \<times> jsval) list \<Rightarrow> string"

subsection \<open>The temporal anchor\<close>

definition DRAND_URL :: string where
  "DRAND_URL = ''https://drand.cloudflare.com''"

definition DRAND_CHAIN_HASH :: string where
  "DRAND_CHAIN_HASH = ''8990e7a9aaed2ffed73dbd7092123d6f289930540d7651336225dc172e51b2ce''"

record drand_round =
  dr_round :: jsval
  dr_randomness :: jsval
  dr_signature :: jsval

text \<open>\<open>response.ok\<close>\<close>

definition response_ok :: "nat \<Rightarrow> bool" where
  "response_ok status = (200 \<le> status \<and> status \<le> 299)"

text \<open>
  The body of the \<open>try\<close> block of \<open>fetchDrandRound\<close>: what it returns, or what it throws.
  (The \<open>console.error\<close> lines have no effect on the result and are left out.)
\<close>

definition fetchDrandRound_try :: "world \<Rightarrow> (js_error + drand_round option) \<times> world" where
  "fetchDrandRound_try w =
     (let (outcome, w1) = fetch w in
      case outcome of
        NetworkFailure m \<Rightarrow> (Inl (TypeError m), w1)
      | Response status statusText body \<Rightarrow>
          (if \<not> response_ok status then (Inr None, w1)
           else
             (case body of
                Unparsable m \<Rightarrow> (Inl (SyntaxError m), w1)
              | Json data \<Rightarrow>
                  (case member data ''round'' of
                     Inl e \<Rightarrow> (Inl e, w1)
                   | Inr r \<Rightarrow>
                       (if \<not> truthy r then (Inr None, w1)
                        else
                          (case member data ''randomness'' of
                             Inl e \<Rightarrow> (Inl e, w1)
                           | Inr rn \<Rightarrow>
                               (if \<not> truthy rn then (Inr None, w1)
                                else
                                  (case member data ''signature'' of
                                     Inl e \<Rightarrow> (Inl e, w1)
                                   | Inr sg \<Rightarrow>
                                       (if \<not> truthy sg then (Inr None, w1)
                                        else (Inr (Some \<lparr>dr_round = r, dr_randomness = rn,
                                                          dr_signature = sg\<rparr>), w1))))))))))"

text \<open>The \<open>catch\<close> turns whatever was thrown into \<open>null\<close>.\<close>

definition fetchDrandRound :: "world \<Rightarrow> drand_round option \<times> world" where
  "fetchDrandRound w =
     (case fetchDrandRound_try w of
        (Inl error, w1) \<Rightarrow> (None, w1)
      | (Inr result, w1) \<Rightarrow> (result, w1))"

subsection \<open>Receipts\<close>

record signature_block =
  sg_signatureId :: string
  sg_algorithm :: string
  sg_value :: string
  sg_publicKey :: string
  sg_signedPayload :: string
  sg_valid :: bool
  sg_timestamp :: jsval

record anchor =
  an_round :: jsval
  an_randomness :: jsval
  an_signature :: jsval
  an_beacon :: string
  an_chainHash :: string

record legal_weight =
  lw_admissible :: bool
  lw_standard :: string
  lw_pillar :: string
  lw_score :: jsnum
  lw_technical :: jsnum
  lw_arguable :: jsnum

record receipt =
  rc_receiptId :: string
  rc_deliveryId :: jsval
  rc_signer :: jsval
  rc_signerVerified :: bool
  rc_signerMethod :: string
  rc_method :: string
  rc_algorithm :: string
  rc_signature :: signature_block
  rc_witnessed :: bool
  rc_witness :: string
  rc_witnessTimestamp :: jsval
  rc_drand :: "anchor option"
  rc_status :: string
  rc_legal :: legal_weight
  rc_createdAt :: jsval
  rc_verifyUrl :: string

text \<open>
  The engine: the configured key (\<open>this.dlvr?.signingKeyJwk\<close>), the cached key pair
  (private, public) and the receipt store.
\<close>

record engine =
  signingKeyJwk :: "string option"
  keyPair :: "(bytes \<times> bytes) option"
  receipts :: "string \<rightharpoonup> receipt"

definition new_engine :: "string option \<Rightarrow> engine" where
  "new_engine jwk = \<lparr>signingKeyJwk = jwk, keyPair = None, receipts = Map.empty\<rparr>"

subsection \<open>Receipt scores\<close>

definition receipt_scores :: "(string \<times> rat) list" where
  "receipt_scores =
     [(''digital'', 85), (''witness'', 90), (''physical'', 75), (''notarized'', 95),
      (''legalService'', 95)]"

definition receipt_technical :: "(string \<times> rat) list" where
  "receipt_technical =
     [(''digital'', 90), (''witness'', 80), (''physical'', 65), (''notarized'', 90),
      (''legalService'', 85)]"

definition receipt_arguable :: "(string \<times> rat) list" where
  "receipt_arguable =
     [(''digital'', 80), (''witness'', 95), (''physical'', 80), (''notarized'', 95),
      (''legalService'', 95)]"

definition calculateReceiptScore :: "string \<Rightarrow> jsnum" where
  "calculateReceiptScore method = number_or receipt_scores method 70"

definition calculateTechnicalScore :: "string \<Rightarrow> jsnum" where
  "calculateTechnicalScore method = number_or receipt_technical method 60"

definition calculateArguableScore :: "string \<Rightarrow> jsnum" where
  "calculateArguableScore method = number_or receipt_arguable method 70"

subsection \<open>The signing key\<close>

text \<open>
  \<open>getServiceKeyPair\<close>: the cached pair; else the configured JWK (a failed import is
  rethrown, never masked); else a fresh ephemeral pair from 32 bytes of randomness.
\<close>

definition import_failed :: "js_error \<Rightarrow> js_error" where
  "import_failed e =
     Error (''Signing key import failed: '' @ error_message e
            @ ''. Check SIGNING_KEY_JWK configuration.'')"

definition generation_failed :: "js_error \<Rightarrow> js_error" where
  "generation_failed e =
     Error (''Cryptographic key generation failed: '' @ error_message e
            @ ''. Receipt signing is unavailable.'')"

definition getServiceKeyPair ::
  "platform \<Rightarrow> engine \<Rightarrow> world \<Rightarrow> (js_error + (bytes \<times> bytes)) \<times> engine \<times> world" where
  "getServiceKeyPair P s w =
     (case keyPair s of
        Some kp \<Rightarrow> (Inr kp, s, w)
      | None \<Rightarrow>
          (case (case signingKeyJwk s of None \<Rightarrow> None | Some j \<Rightarrow> if j = [] then None else Some j) of
             Some jwk \<Rightarrow>
               (case subtle_importJwkPrivate P jwk of
                  Inl e \<Rightarrow> (Inl (import_failed e), s, w)
                | Inr privateKey \<Rightarrow>
                    (case subtle_importJwkPublic P jwk of
                       Inl e \<Rightarrow> (Inl (import_failed e), s, w)
                     | Inr publicKey \<Rightarrow>
                         (Inr (privateKey, publicKey),
                          s\<lparr>keyPair := Some (privateKey, publicKey)\<rparr>, w)))
           | None \<Rightarrow>
               (let (seed, w1) = getRandomValues 32 w
                in (case subtle_generateKey P seed of
                      Inl e \<Rightarrow> (Inl (generation_failed e), s, w1)
                    | Inr kp \<Rightarrow> (Inr kp, s\<lparr>keyPair := Some kp\<rparr>, w1)))))"

subsection \<open>Creating a receipt\<close>

record create_options =
  c_deliveryId :: jsval
  c_signer :: jsval
  c_method :: "string option"
  c_timestamp :: jsval

text \<open>The payload object, in the order of its properties.\<close>

definition payload ::
  "string \<Rightarrow> create_options \<Rightarrow> string \<Rightarrow> drand_round option \<Rightarrow> (string \<times> jsval) list" where
  "payload receiptId options method drand =
     [(''receiptId'', JString receiptId),
      (''deliveryId'', c_deliveryId options),
      (''signer'', c_signer options),
      (''method'', JString method),
      (''timestamp'', c_timestamp options),
      (''drandRound'', (case drand of None \<Rightarrow> JNull | Some d \<Rightarrow> js_or (dr_round d) JNull)),
      (''drandRandomness'',
         (case drand of None \<Rightarrow> JNull | Some d \<Rightarrow> js_or (dr_randomness d) JNull))]"

definition create ::
  "platform \<Rightarrow> engine \<Rightarrow> create_options \<Rightarrow> world \<Rightarrow> (js_error + receipt) \<times> engine \<times> world" where
  "create P s options w =
     (let method = (case c_method options of None \<Rightarrow> ''digital'' | Some m \<Rightarrow> m);
          (receiptId, w1) = generateReceiptId w;
          (drand, w2) = fetchDrandRound w1;
          serializedPayload = JSON_stringify P (payload receiptId options method drand);
          (loaded, s1, w3) = getServiceKeyPair P s w2
      in case loaded of
           Inl e \<Rightarrow> (Inl e, s1, w3)
         | Inr (privateKey, publicKey) \<Rightarrow>
            (let dataBuffer = encode serializedPayload;
                 (nonce, w4) = getRandomValues 32 w3;
                 signatureBuffer = subtle_sign P privateKey nonce dataBuffer;
                 publicKeyBuffer = subtle_exportSpki P publicKey;
                 signatureB64 = bufferToBase64 signatureBuffer;
                 publicKeyB64 = bufferToBase64 publicKeyBuffer;
                 receipt =
                   \<lparr>rc_receiptId = receiptId,
                    rc_deliveryId = c_deliveryId options,
                    rc_signer = c_signer options,
                    rc_signerVerified = True,
                    rc_signerMethod = ''ChittyID'',
                    rc_method = method,
                    rc_algorithm = ''ECDSA-P256-SHA256'',
                    rc_signature =
                      \<lparr>sg_signatureId = ''SIG-'' @ receiptId,
                       sg_algorithm = ''ECDSA-P256-SHA256'',
                       sg_value = signatureB64,
                       sg_publicKey = publicKeyB64,
                       sg_signedPayload = serializedPayload,
                       sg_valid = True,
                       sg_timestamp = c_timestamp options\<rparr>,
                    rc_witnessed = True,
                    rc_witness = ''ChittyOS'',
                    rc_witnessTimestamp = c_timestamp options,
                    rc_drand =
                      (case drand of
                         None \<Rightarrow> None
                       | Some d \<Rightarrow>
                           Some \<lparr>an_round = dr_round d, an_randomness = dr_randomness d,
                                 an_signature = dr_signature d, an_beacon = DRAND_URL,
                                 an_chainHash = DRAND_CHAIN_HASH\<rparr>),
                    rc_status = ''VALID'',
                    rc_legal =
                      \<lparr>lw_admissible = True, lw_standard = ''ChittyProof'',
                       lw_pillar = ''delivery'',
                       lw_score = calculateReceiptScore method,
                       lw_technical = calculateTechnicalScore method,
                       lw_arguable = calculateArguableScore method\<rparr>,
                    rc_createdAt = c_timestamp options,
                    rc_verifyUrl = ''https://chitty.cc/receipt/'' @ receiptId\<rparr>
             in (Inr receipt, s1\<lparr>receipts := (receipts s1)(receiptId \<mapsto> receipt)\<rparr>, w4)))"

definition getById :: "engine \<Rightarrow> string \<Rightarrow> receipt option" where
  "getById s receiptId = receipts s receiptId"

subsection \<open>Verifying a receipt\<close>

text \<open>
  What \<open>verify\<close> is handed as \<open>receiptData\<close>: an object whose \<open>signature\<close> property, when
  present, holds the three strings \<open>verify\<close> reads. A stored receipt is such an object.
\<close>

record receipt_data =
  rd_signature :: "signature_block option"

definition data_of :: "receipt \<Rightarrow> receipt_data" where
  "data_of r = \<lparr>rd_signature = Some (rc_signature r)\<rparr>"

text \<open>
  The three shapes of the object \<open>verify\<close> returns: nothing to verify
  (\<open>{receiptId, verified: false, error}\<close>), the verdict of the signature check
  (\<open>{receiptId, verified: valid, signatureValid: valid, witnessConfirmed: true,
  chainAnchored: true, timestamp}\<close>) and a verification-system error
  (\<open>{receiptId, verified: false, verificationError: true, error}\<close>).
\<close>

datatype verification =
    NoData string string
  | Verdict string bool nat
  | SystemError string string

fun verified :: "verification \<Rightarrow> bool" where
  "verified (NoData receiptId error) = False"
| "verified (Verdict receiptId valid timestamp) = valid"
| "verified (SystemError receiptId error) = False"

fun verificationError :: "verification \<Rightarrow> bool" where
  "verificationError (SystemError receiptId error) = True"
| "verificationError _ = False"

text \<open>The body of the \<open>try\<close> block of \<open>verify\<close>, up to the verdict.\<close>

definition verify_try :: "platform \<Rightarrow> signature_block \<Rightarrow> js_error + bool" where
  "verify_try P sg =
     (case base64_to_bytes (sg_publicKey sg) of
        Inl e \<Rightarrow> Inl e
      | Inr keyData \<Rightarrow>
          (case subtle_importSpki P keyData of
             Inl e \<Rightarrow> Inl e
           | Inr importedKey \<Rightarrow>
               (let dataBuffer = encode (sg_signedPayload sg)
                in (case base64_to_bytes (sg_value sg) of
                      Inl e \<Rightarrow> Inl e
                    | Inr sigBytes \<Rightarrow> Inr (subtle_verify P importedKey sigBytes dataBuffer)))))"

definition verify ::
  "platform \<Rightarrow> engine \<Rightarrow> string \<Rightarrow> receipt_data option \<Rightarrow> world \<Rightarrow> verification \<times> world" where
  "verify P s receiptId receiptData w =
     (let receiptData =
            (case receiptData of
               None \<Rightarrow> map_option data_of (getById s receiptId)
             | Some d \<Rightarrow> Some d)
      in case (case receiptData of None \<Rightarrow> None | Some d \<Rightarrow> rd_signature d) of
           None \<Rightarrow> (NoData receiptId ''Receipt not found or no signature data'', w)
         | Some sg \<Rightarrow>
             (case verify_try P sg of
                Inr valid \<Rightarrow> (let (now, w1) = Date_now w in (Verdict receiptId valid now, w1))
              | Inl error \<Rightarrow>
                  (SystemError receiptId (''Verification system error: '' @ error_message error), w)))"

text \<open>Any number of later \<open>create\<close> calls, each with its own options and its own outside world.\<close>

fun creates :: "platform \<Rightarrow> engine \<Rightarrow> (create_options \<times> world) list \<Rightarrow> engine" where
  "creates P s [] = s"
| "creates P s ((options, w) # calls) =
     (case create P s options w of (result, s1, w1) \<Rightarrow> creates P s1 calls)"

subsection \<open>What is required of the platform\<close>

text \<open>
  A private and a public key match when the platform made them together: generated as one
  pair, or imported from one JWK.
\<close>

definition matching :: "platform \<Rightarrow> bytes \<Rightarrow> bytes \<Rightarrow> bool" where
  "matching P privateKey publicKey =
     ((\<exists>seed. subtle_generateKey P seed = Inr (privateKey, publicKey))
      \<or> (\<exists>jwk. subtle_importJwkPrivate P jwk = Inr privateKey
              \<and> subtle_importJwkPublic P jwk = Inr publicKey))"

text \<open>
  Correctness of the signature scheme: a public key can be exported and imported again,
  and under the imported key every signature made with the matching private key verifies
  for the data that was signed.
\<close>

definition sound_platform :: "platform \<Rightarrow> bool" where
  "sound_platform P =
     (\<forall>privateKey publicKey nonce data.
        matching P privateKey publicKey \<longrightarrow>
        (\<exists>imported. subtle_importSpki P (subtle_exportSpki P publicKey) = Inr imported
           \<and> subtle_verify P imported (subtle_sign P privateKey nonce data) data))"

text \<open>
  The idealisation under which tampering is detected: under the imported public key,
  the only signature that verifies for some data is the one the matching private key makes
  for that data, and signatures of different data differ.
\<close>

definition ideal_signatures :: "platform \<Rightarrow> bool" where
  "ideal_signatures P =
     (\<forall>privateKey publicKey imported nonce data sigBytes.
        matching P privateKey publicKey \<longrightarrow>
        subtle_importSpki P (subtle_exportSpki P publicKey) = Inr imported \<longrightarrow>
        (subtle_verify P imported sigBytes data
           \<longleftrightarrow> sigBytes = subtle_sign P privateKey nonce data)
        \<and> (\<forall>nonce' data'. subtle_sign P privateKey nonce data = subtle_sign P privateKey nonce' data'
               \<longrightarrow> data = data'))"

text \<open>A receipt is genuine when the check of \<open>verify\<close> accepts its own signature block.\<close>

definition genuine :: "platform \<Rightarrow> receipt \<Rightarrow> bool" where
  "genuine P r = (verify_try P (rc_signature r) = Inr True)"

text \<open>
  The invariant of an engine: a cached key pair matches, and every stored receipt is
  genuine. A new engine satisfies it.
\<close>

definition engine_ok :: "platform \<Rightarrow> engine \<Rightarrow> bool" where
  "engine_ok P s =
     ((\<forall>privateKey publicKey. keyPair s = Some (privateKey, publicKey)
          \<longrightarrow> matching P privateKey publicKey)
      \<and> (\<forall>receiptId r. receipts s receiptId = Some r \<longrightarrow> genuine P r))"

text \<open>The signing key can be had: \<open>getServiceKeyPair\<close> returns, whatever the randomness.\<close>

definition key_available :: "platform \<Rightarrow> engine \<Rightarrow> bool" where
  "key_available P s = (\<forall>w. \<exists>kp s1 w1. getServiceKeyPair P s w = (Inr kp, s1, w1))"

text \<open>
  The anchor is unavailable, in the words of the specification: the fetch failed, the
  response is not a success (its status is outside 200 to 299), or the payload is
  malformed (not JSON, or lacking \<open>round\<close>, \<open>randomness\<close> or \<open>signature\<close>).
\<close>

definition lacks :: "jsval \<Rightarrow> string \<Rightarrow> bool" where
  "lacks data k = (case data of JObject kvs \<Rightarrow> map_of kvs k = None | _ \<Rightarrow> True)"

fun unavailable :: "fetch_outcome \<Rightarrow> bool" where
  "unavailable (NetworkFailure m) = True"
| "unavailable (Response status statusText (Unparsable m)) = True"
| "unavailable (Response status statusText (Json data)) =
     (status < 200 \<or> 299 < status
      \<or> lacks data ''round'' \<or> lacks data ''randomness'' \<or> lacks data ''signature'')"

subsection \<open>Decomposition of the Base64 encoding\<close>

text \<open>The sextets \<open>btoa\<close> encodes and the padding it appends.\<close>

fun sextets_of :: "string \<Rightarrow> nat list" where
  "sextets_of (a # b # c # rest) =
     (let x = (of_char a :: nat); y = (of_char b :: nat); z = (of_char c :: nat)
      in [x div 4, (x mod 4) * 16 + y div 16, (y mod 16) * 4 + z div 64, z mod 64]
         @ sextets_of rest)"
| "sextets_of [a, b] =
     (let x = (of_char a :: nat); y = (of_char b :: nat)
      in [x div 4, (x mod 4) * 16 + y div 16, (y mod 16) * 4])"
| "sextets_of [a] = (let x = (of_char a :: nat) in [x div 4, (x mod 4) * 16])"
| "sextets_of [] = []"

fun padding :: "string \<Rightarrow> string" where
  "padding (a # b # c # rest) = padding rest"
| "padding [a, b] = ''=''"
| "padding [a] = ''==''"
| "padding [] = []"

section \<open>A stand-in platform\<close>

text \<open>
  A platform for the closed instances below. A key pair is the same bytes twice (four
  random bytes, or the bytes of the configured JWK after a 1), a signature is the key
  followed by the data, and verification compares; an empty key is rejected on import;
  serialisation writes the values of the properties in order, a string as it is and
  anything else as \<open>null\<close>.
\<close>

definition bad_key :: js_error where
  "bad_key = DOMException ''DataError'' ''Invalid key data''"

fun stub_value :: "jsval \<Rightarrow> string" where
  "stub_value (JString x) = x"
| "stub_value v = ''null''"

definition stub_stringify :: "(string \<times> jsval) list \<Rightarrow> string" where
  "stub_stringify kvs = join '';'' (map (\<lambda>(k, v). stub_value v) kvs)"

definition stub_platform :: platform where
  "stub_platform =
     \<lparr>subtle_generateKey =
        (\<lambda>seed. if length seed < 4 then Inl (DOMException ''OperationError'' ''no entropy'')
                 else Inr (take 4 seed, take 4 seed)),
      subtle_importJwkPrivate = (\<lambda>jwk. if jwk = ''{}'' then Inl bad_key else Inr (1 # encode jwk)),
      subtle_importJwkPublic = (\<lambda>jwk. if jwk = ''{}'' then Inl bad_key else Inr (1 # encode jwk)),
      subtle_sign = (\<lambda>privateKey nonce data. privateKey @ data),
      subtle_verify = (\<lambda>publicKey sigBytes data. sigBytes = publicKey @ data),
      subtle_exportSpki = (\<lambda>publicKey. publicKey),
      subtle_importSpki = (\<lambda>keyData. if keyData = [] then Inl bad_key else Inr keyData),
      JSON_stringify = stub_stringify\<rparr>"

section \<open>Inputs of the test suite (tests/core.test.js)\<close>

definition test_config :: dlvr_config where
  "test_config =
     \<lparr>apiKey = Some ''test-key-minimum-16ch'', baseUrl = ''https://api.chitty.cc/dlvr/v1'',
      chittyId = Some ''test-chitty-id''\<rparr>"

definition test_world :: world where
  "test_world =
     \<lparr>clock = (\<lambda>k. 1000 + k), rng = (\<lambda>k. of_nat (17 * k + 3)),
      beacon = (\<lambda>k. NetworkFailure ''fetch failed''), reads = 0, drawn = 0, fetched = 0\<rparr>"

text \<open>\<open>it('throws on unsupported delivery method')\<close>\<close>

definition pigeon_options :: send_options where
  "pigeon_options =
     \<lparr>s_mintId = JString ''DM-TEST'', s_to = JString ''recipient'', s_method = Some ''pigeon'',
      s_address = JString ''nest''\<rparr>"

text \<open>\<open>it('handles individual failures gracefully')\<close>\<close>

definition alice :: recipient where
  "alice = \<lparr>r_to = JString ''alice'', r_method = Some ''email'',
             r_address = JString ''alice@example.com'', r_mintId = None\<rparr>"

definition bob :: recipient where
  "bob = \<lparr>r_to = JString ''bob'', r_method = Some ''invalid_method'',
           r_address = JString ''x'', r_mintId = None\<rparr>"

definition charlie :: recipient where
  "charlie = \<lparr>r_to = JString ''charlie'', r_method = Some ''portal'',
               r_address = JUndefined, r_mintId = None\<rparr>"

text \<open>\<open>it('throws on invalid service type')\<close>\<close>

definition jane_doe :: serve_options where
  "jane_doe =
     \<lparr>sv_respondent = JString ''Jane Doe'', sv_serviceType = Some ''telekinesis'',
      sv_address = JUndefined, sv_jurisdiction = JUndefined, sv_mintId = None\<rparr>"

text \<open>\<open>it('includes legal scoring')\<close>\<close>

definition receipt_options :: create_options where
  "receipt_options =
     \<lparr>c_deliveryId = JString ''DD-TEST-123'', c_signer = JString ''recipient-id'',
      c_method = Some ''digital'', c_timestamp = JTime 1000\<rparr>"

text \<open>A beacon that answers 201 with a complete round.\<close>

definition created_world :: world where
  "created_world =
     test_world\<lparr>beacon := (\<lambda>k. Response 201 ''Created''
        (Json (JObject [(''round'', JNumber (Num 7)), (''randomness'', JString ''ab''),
                        (''signature'', JString ''cd'')])))\<rparr>"

text \<open>
  The signature block of the receipt that the stand-in platform issues for these options
  in the test world, and the same Base64 signature with its last character before the
  padding changed from \<open>A\<close> to \<open>B\<close>.
\<close>

definition issued_signature :: signature_block where
  "issued_signature =
     \<lparr>sg_signatureId = ''SIG-DR-RS-031425364758'',
      sg_algorithm = ''ECDSA-P256-SHA256'',
      sg_value = ''aXqLnERSLVJTLTAzMTQyNTM2NDc1ODtERC1URVNULTEyMztyZWNpcGllbnQtaWQ7ZGlnaXRhbDtudWxsO251bGw7bnVsbA=='',
      sg_publicKey = ''aXqLnA=='',
      sg_signedPayload = ''DR-RS-031425364758;DD-TEST-123;recipient-id;digital;null;null;null'',
      sg_valid = True,
      sg_timestamp = JTime 1000\<rparr>"

definition tampered_value :: string where
  "tampered_value = ''aXqLnERSLVJTLTAzMTQyNTM2NDc1ODtERC1URVNULTEyMztyZWNpcGllbnQtaWQ7ZGlnaXRhbDtudWxsO251bGw7bnVsbB==''"

section \<open>Delivery scores\<close>

lemma literal_0: "literal 0 = 0"
  by code_simp

lemma literal_1: "literal 1 = 1"
  by code_simp

lemma base_lookup:
  "m \<notin> set object_prototype_keys \<Longrightarrow> number_or methodScores m 50 = Num (spec_methodBase m)"
  by (simp add: number_or_def get_prop_def methodScores_def spec_methodBase_def)

lemma factor_lookup:
  "s \<notin> set object_prototype_keys \<Longrightarrow>
   number_or statusMultipliers s 0 = Num (literal (spec_statusMultiplier s))"
  by (simp add: number_or_def get_prop_def statusMultipliers_def spec_statusMultiplier_def
      literal_0 literal_1)

lemma base_in: "spec_methodBase m \<in> set method_bases"
  by (simp add: spec_methodBase_def method_bases_def)

lemma factor_in: "spec_statusMultiplier s \<in> set status_factors"
  by (simp add: spec_statusMultiplier_def status_factors_def)

text \<open>
  The binary64 product of each base with each multiplier, rounded by \<open>Math.round\<close>, is the
  rounding of the exact product: one evaluation per base.
\<close>

lemma product_95:
  "\<forall>k \<in> set status_factors.
     Math_round (js_times (Num 95) (Num (literal k))) = Num (of_int (round (95 * k)))"
  by code_simp

lemma product_90:
  "\<forall>k \<in> set status_factors.
     Math_round (js_times (Num 90) (Num (literal k))) = Num (of_int (round (90 * k)))"
  by code_simp

lemma product_85:
  "\<forall>k \<in> set status_factors.
     Math_round (js_times (Num 85) (Num (literal k))) = Num (of_int (round (85 * k)))"
  by code_simp

lemma product_75:
  "\<forall>k \<in> set status_factors.
     Math_round (js_times (Num 75) (Num (literal k))) = Num (of_int (round (75 * k)))"
  by code_simp

lemma product_70:
  "\<forall>k \<in> set status_factors.
     Math_round (js_times (Num 70) (Num (literal k))) = Num (of_int (round (70 * k)))"
  by code_simp

lemma product_65:
  "\<forall>k \<in> set status_factors.
     Math_round (js_times (Num 65) (Num (literal k))) = Num (of_int (round (65 * k)))"
  by code_simp

lemma product_60:
  "\<forall>k \<in> set status_factors.
     Math_round (js_times (Num 60) (Num (literal k))) = Num (of_int (round (60 * k)))"
  by code_simp

lemma product_50:
  "\<forall>k \<in> set status_factors.
     Math_round (js_times (Num 50) (Num (literal k))) = Num (of_int (round (50 * k)))"
  by code_simp

lemma product_all:
  assumes "b \<in> set method_bases" and "k \<in> set status_factors"
  shows "Math_round (js_times (Num b) (Num (literal k))) = Num (of_int (round (b * k)))"
proof -
  from assms(1) consider "b = 95" | "b = 90" | "b = 85" | "b = 75" | "b = 70" | "b = 65"
    | "b = 60" | "b = 50"
    by (auto simp: method_bases_def)
  then show ?thesis
    using assms(2) product_95 product_90 product_85 product_75 product_70 product_65
      product_60 product_50
    by cases blast+
qed

text \<open>
  For every method and status name that is not a member of \<open>Object.prototype\<close>, in the
  tables or not, the score is the rounded exact product with the defaults 50 and 0.
\<close>

lemma calculateDeliveryScore_spec:
  assumes "m \<notin> set object_prototype_keys" and "s \<notin> set object_prototype_keys"
  shows "calculateDeliveryScore m s = Num (of_int (spec_deliveryScore m s))"
  using assms product_all [OF base_in factor_in, of m s]
  by (simp add: calculateDeliveryScore_def base_lookup factor_lookup spec_deliveryScore_def)

lemma inherited_method_is_NaN: "calculateDeliveryScore ''constructor'' ''SENT'' = NaN"
  by (simp add: calculateDeliveryScore_def number_or_def get_prop_def methodScores_def
      object_prototype_keys_def)

lemma methods_not_inherited: "m \<in> set delivery_methods \<Longrightarrow> m \<notin> set object_prototype_keys"
  by (auto simp: delivery_methods_def object_prototype_keys_def)

lemma statuses_not_inherited: "s \<in> set delivery_statuses \<Longrightarrow> s \<notin> set object_prototype_keys"
  by (auto simp: delivery_statuses_def object_prototype_keys_def)

lemma spec_examples:
  "spec_deliveryScore ''email'' ''SENT'' = 21"
  "spec_deliveryScore ''legalService'' ''RECEIPTED'' = 95"
  "spec_deliveryScore ''email'' ''PENDING'' = 0"
  "spec_deliveryScore ''email'' ''REFUSED'' = 35"
  by code_simp+

text \<open>
  C1. For every delivery method and status of the tables, \<open>calculateDeliveryScore\<close> (computed
  in binary64 and rounded by \<open>Math.round\<close>) equals the rounding of the exact product
  \<open>methodBase[method] \<times> statusMultiplier[status]\<close> of the specification's tables; in particular
  (email, SENT) gives 21, (legalService, RECEIPTED) 95, (email, PENDING) 0 and
  (email, REFUSED) 35.
\<close>

theorem calculateDeliveryScore_tables:
  "(\<forall>m \<in> set delivery_methods. \<forall>s \<in> set delivery_statuses.
      calculateDeliveryScore m s = Num (of_int (spec_deliveryScore m s)))
   \<and> calculateDeliveryScore ''email'' ''SENT'' = Num 21
   \<and> calculateDeliveryScore ''legalService'' ''RECEIPTED'' = Num 95
   \<and> calculateDeliveryScore ''email'' ''PENDING'' = Num 0
   \<and> calculateDeliveryScore ''email'' ''REFUSED'' = Num 35"
proof -
  have tables: "\<forall>m \<in> set delivery_methods. \<forall>s \<in> set delivery_statuses.
      calculateDeliveryScore m s = Num (of_int (spec_deliveryScore m s))"
    by (simp add: calculateDeliveryScore_spec methods_not_inherited statuses_not_inherited)
  have email: "''email'' \<in> set delivery_methods"
    and legal: "''legalService'' \<in> set delivery_methods"
    by (simp_all add: delivery_methods_def)
  have st: "''SENT'' \<in> set delivery_statuses" "''RECEIPTED'' \<in> set delivery_statuses"
    "''PENDING'' \<in> set delivery_statuses" "''REFUSED'' \<in> set delivery_statuses"
    by (simp_all add: delivery_statuses_def)
  from tables email legal st spec_examples show ?thesis
    by (metis of_int_numeral of_int_0)
qed

theorem calculateDeliveryScore_tables_witness:
  "''portal'' \<in> set delivery_methods \<and> ''OPENED'' \<in> set delivery_statuses
   \<and> calculateDeliveryScore ''portal'' ''OPENED'' = Num 64"
proof -
  have m: "''portal'' \<in> set delivery_methods"
    by (simp add: delivery_methods_def)
  have s: "''OPENED'' \<in> set delivery_statuses"
    by (simp add: delivery_statuses_def)
  have "spec_deliveryScore ''portal'' ''OPENED'' = 64"
    by code_simp
  with calculateDeliveryScore_tables m s show ?thesis
    by (metis of_int_numeral)
qed

section \<open>Unsupported delivery methods\<close>

lemma handler_unsupported:
  "m \<notin> set delivery_methods \<Longrightarrow> m \<notin> set object_prototype_keys \<Longrightarrow> getHandler m = SendEmail"
  by (simp add: getHandler_def get_prop_def handlers_def delivery_methods_def)

lemma dispatch_unsupported:
  "m \<notin> set delivery_methods \<Longrightarrow> m \<notin> set object_prototype_keys \<Longrightarrow>
   dispatch m opts w = (Inr (sendEmail opts), w)"
  by (simp add: dispatch_def handler_unsupported call_handler_def)

lemma sendEmail_channel: "member (sendEmail opts) ''channel'' = Inr (JString ''email'')"
  by (simp add: sendEmail_def member_def get_prop_def)

lemma dispatch_proto_throws:
  "dispatch ''__proto__'' opts w = (Inl (TypeError ''handler is not a function''), w)"
  by (simp add: dispatch_def getHandler_def get_prop_def handlers_def call_handler_def
      object_prototype_keys_def)

text \<open>
  C5 (the code departs from the claim). The claim wants \<open>dispatch\<close>, and so \<open>send\<close>, to fail
  for a method name outside the seven channels. \<open>getHandler\<close> ends in
  \<open>handlers[method] || handlers.email\<close>: for every method name that is neither one of the
  seven nor a member of \<open>Object.prototype\<close>, \<open>dispatch\<close> returns the email handler's metadata
  and \<open>send\<close> returns a delivery with status SENT whose dispatch channel is \<open>email\<close>. The
  test suite expects \<open>send\<close> with method \<open>pigeon\<close> to reject with
  \<open>Unsupported delivery method\<close>.
\<close>

theorem send_unsupported_method_falls_back_to_email:
  assumes "m \<notin> set delivery_methods" and "m \<notin> set object_prototype_keys"
    and "truthy mint" and "is_string mint"
  shows "dispatch m opts w = (Inr (sendEmail opts), w) \<and>
    (\<exists>d w'. send cfg \<lparr>s_mintId = mint, s_to = rcpt, s_method = Some m, s_address = addr\<rparr> w
              = (Inr d, w') \<and> d_method d = m \<and> d_status d = ''SENT''
            \<and> member (d_dispatch d) ''channel'' = Inr (JString ''email''))"
  using assms
  by (simp add: send_def dispatch_unsupported Let_def generateDeliveryId_def generateId_def
      getRandomValues_def Date_now_def sendEmail_channel split: prod.splits)

theorem send_pigeon_witness:
  "''pigeon'' \<notin> set delivery_methods \<and> ''pigeon'' \<notin> set object_prototype_keys
   \<and> truthy (JString ''DM-TEST'') \<and> is_string (JString ''DM-TEST'')
   \<and> (\<exists>d w'. send test_config pigeon_options test_world = (Inr d, w')
         \<and> d_method d = ''pigeon'' \<and> d_status d = ''SENT''
         \<and> member (d_dispatch d) ''channel'' = Inr (JString ''email''))"
proof -
  have a: "''pigeon'' \<notin> set delivery_methods"
    by (simp add: delivery_methods_def)
  have b: "''pigeon'' \<notin> set object_prototype_keys"
    by (simp add: object_prototype_keys_def)
  have c: "truthy (JString ''DM-TEST'')" and d: "is_string (JString ''DM-TEST'')"
    by simp_all
  from send_unsupported_method_falls_back_to_email [OF a b c d, where cfg = test_config
      and rcpt = "JString ''recipient''" and addr = "JString ''nest''" and w = test_world] a b
  show ?thesis
    by (simp add: pigeon_options_def)
qed

section \<open>Bulk send\<close>

lemma send_cases:
  "(\<exists>d w'. send cfg opts w = (Inr d, w') \<and> d_status d = ''SENT'' \<and> d_to d = s_to opts
        \<and> d_address d = s_address opts
        \<and> d_method d = (case s_method opts of None \<Rightarrow> ''email'' | Some m \<Rightarrow> m))
   \<or> (\<exists>e w'. send cfg opts w = (Inl e, w'))"
  by (simp add: send_def Let_def split: prod.splits sum.splits)

text \<open>
  The loop makes one entry per recipient, in order: a delivery (status SENT) where \<open>send\<close>
  returned, a failure (status FAILED) where it threw.
\<close>

lemma bulk_loop_entries:
  "bulk_loop cfg mint rs w = (es, w') \<Longrightarrow>
   list_all2 entry_for rs es \<and>
   (\<forall>e \<in> set es. entry_status e = ''SENT'' \<or> entry_status e = ''FAILED'')"
proof (induction rs arbitrary: w es w')
  case Nil
  then show ?case by simp
next
  case (Cons r rs)
  from send_cases [of cfg "spread_recipient mint r" w]
  show ?case
  proof
    assume "\<exists>d w1. send cfg (spread_recipient mint r) w = (Inr d, w1) \<and> d_status d = ''SENT''
        \<and> d_to d = s_to (spread_recipient mint r)
        \<and> d_address d = s_address (spread_recipient mint r)
        \<and> d_method d = (case s_method (spread_recipient mint r) of None \<Rightarrow> ''email'' | Some m \<Rightarrow> m)"
    then obtain d w1 where s: "send cfg (spread_recipient mint r) w = (Inr d, w1)"
      and d: "d_status d = ''SENT''" "d_to d = r_to r" "d_address d = r_address r"
        "d_method d = (case r_method r of None \<Rightarrow> ''email'' | Some m \<Rightarrow> m)"
      by (auto simp: spread_recipient_def)
    obtain es1 w2 where l: "bulk_loop cfg mint rs w1 = (es1, w2)"
      by (meson surj_pair)
    from Cons.prems s l have "es = Delivered d # es1" by simp
    with Cons.IH [OF l] d show ?thesis by simp
  next
    assume "\<exists>e w1. send cfg (spread_recipient mint r) w = (Inl e, w1)"
    then obtain e w1 where s: "send cfg (spread_recipient mint r) w = (Inl e, w1)"
      by blast
    obtain es1 w2 where l: "bulk_loop cfg mint rs w1 = (es1, w2)"
      by (meson surj_pair)
    from Cons.prems s l
    have "es = Failed \<lparr>f_deliveryId = JNull, f_to = r_to r, f_method = r_method r,
                        f_status = ''FAILED'', f_error = error_message e\<rparr> # es1" by simp
    with Cons.IH [OF l] show ?thesis by simp
  qed
qed

lemma sent_failed_partition:
  "\<forall>e \<in> set es. entry_status e = ''SENT'' \<or> entry_status e = ''FAILED'' \<Longrightarrow>
   length (filter (\<lambda>r. entry_status r = ''SENT'') es)
   + length (filter (\<lambda>r. entry_status r = ''FAILED'') es) = length es"
  by (induction es) auto

text \<open>
  C10. \<open>bulkSend\<close> accepts exactly a truthy string \<open>mintId\<close> with a non-empty recipients list,
  and then returns a batch with \<open>totalRecipients\<close> = number of recipients = number of
  entries of \<open>deliveries\<close>, \<open>sent + failed = totalRecipients\<close>, every entry SENT or FAILED,
  and the \<open>i\<close>-th entry made for the \<open>i\<close>-th recipient (same \<open>to\<close> and method).
\<close>

theorem bulkSend_batch:
  assumes "truthy mint" and "is_string mint" and "recipients \<noteq> []"
  shows "\<exists>b w'. bulkSend cfg mint recipients w = (Inr b, w')
     \<and> totalRecipients b = length recipients
     \<and> length (deliveries b) = length recipients
     \<and> sent b + failed b = totalRecipients b
     \<and> (\<forall>e \<in> set (deliveries b). entry_status e = ''SENT'' \<or> entry_status e = ''FAILED'')
     \<and> (\<forall>i < length recipients. entry_for (recipients ! i) (deliveries b ! i))"
proof -
  obtain es w1 where l: "bulk_loop cfg (string_of mint) recipients w = (es, w1)"
    by (meson surj_pair)
  from bulk_loop_entries [OF l]
  have rel: "list_all2 entry_for recipients es"
    and st: "\<forall>e \<in> set es. entry_status e = ''SENT'' \<or> entry_status e = ''FAILED''"
    by simp_all
  from rel have len: "length es = length recipients"
    by (simp add: list_all2_lengthD)
  from rel have nth: "\<forall>i < length recipients. entry_for (recipients ! i) (es ! i)"
    by (simp add: list_all2_conv_all_nth)
  obtain bid w2 where g: "generateBulkId w1 = (bid, w2)"
    by (meson surj_pair)
  obtain t w3 where c: "Date_now w2 = (t, w3)"
    by (meson surj_pair)
  have "bulkSend cfg mint recipients w =
      (Inr \<lparr>bulkId = bid, b_mintId = string_of mint, totalRecipients = length recipients,
             sent = length (filter (\<lambda>r. entry_status r = ''SENT'') es),
             failed = length (filter (\<lambda>r. entry_status r = ''FAILED'') es),
             deliveries = es, b_createdAt = t\<rparr>, w3)"
    using assms l g c by (simp add: bulkSend_def)
  then show ?thesis
    using len nth st sent_failed_partition [OF st] by simp
qed

text \<open>
  The witness has a recipient whose own \<open>mintId\<close> (the number 42) replaces the batch's in
  the spread, so that \<open>send\<close> throws for it.
\<close>

theorem bulkSend_batch_witness:
  "truthy (JString ''DM-BULK-TEST'') \<and> is_string (JString ''DM-BULK-TEST'')
   \<and> [alice, bob\<lparr>r_mintId := Some (JNumber (Num 42))\<rparr>, charlie] \<noteq> []
   \<and> (\<exists>b w'. bulkSend test_config (JString ''DM-BULK-TEST'')
                [alice, bob\<lparr>r_mintId := Some (JNumber (Num 42))\<rparr>, charlie] test_world = (Inr b, w')
         \<and> totalRecipients b = 3 \<and> length (deliveries b) = 3 \<and> sent b + failed b = 3)"
proof -
  have a: "truthy (JString ''DM-BULK-TEST'')" and b: "is_string (JString ''DM-BULK-TEST'')"
    by simp_all
  have c: "[alice, bob\<lparr>r_mintId := Some (JNumber (Num 42))\<rparr>, charlie] \<noteq> []"
    by simp
  from bulkSend_batch [OF a b c, of test_config test_world] show ?thesis
    by auto
qed

lemma bulkSend_records_failure:
  "\<exists>b w'. bulkSend cfg (JString ''DM-BULK-TEST'')
             [alice, bob\<lparr>r_mintId := Some (JNumber (Num 42))\<rparr>, charlie] w = (Inr b, w')
     \<and> sent b = 2 \<and> failed b = 1
     \<and> deliveries b ! 1 =
         Failed \<lparr>f_deliveryId = JNull, f_to = JString ''bob'', f_method = Some ''invalid_method'',
                 f_status = ''FAILED'', f_error = ''mintId is required and must be a string''\<rparr>"
  by (simp add: bulkSend_def send_def spread_recipient_def alice_def bob_def charlie_def
      dispatch_def getHandler_def get_prop_def handlers_def call_handler_def sendPortal_def
      generateBulkId_def generateDeliveryId_def generateId_def getRandomValues_def
      Date_now_def Let_def)

text \<open>
  C9 (the code departs from the claim). The claim, and the test
  \<open>handles individual failures gracefully\<close>, want the recipient with method
  \<open>invalid_method\<close> recorded as FAILED: \<open>sent = 2\<close>, \<open>failed = 1\<close>. In the code \<open>send\<close> does
  not throw for that recipient (C5: \<open>getHandler\<close> falls back to the email handler), so for
  every configuration and every clock and randomness the batch has \<open>sent = 3\<close>,
  \<open>failed = 0\<close>, and the second entry is a delivery dispatched by email.
\<close>

theorem bulkSend_invalid_method_counts:
  "\<exists>b w'. bulkSend cfg (JString ''DM-BULK-TEST'') [alice, bob, charlie] w = (Inr b, w')
     \<and> totalRecipients b = 3 \<and> sent b = 3 \<and> failed b = 0
     \<and> (\<exists>d. deliveries b ! 1 = Delivered d \<and> d_method d = ''invalid_method''
            \<and> d_status d = ''SENT''
            \<and> member (d_dispatch d) ''channel'' = Inr (JString ''email''))"
  by (simp add: bulkSend_def send_def spread_recipient_def alice_def bob_def charlie_def
      dispatch_def getHandler_def get_prop_def handlers_def call_handler_def sendPortal_def
      generateBulkId_def generateDeliveryId_def generateId_def getRandomValues_def
      Date_now_def Let_def object_prototype_keys_def sendEmail_channel)

theorem bulkSend_invalid_method_counts_witness:
  "(case fst (bulkSend test_config (JString ''DM-BULK-TEST'') [alice, bob, charlie] test_world) of
      Inl e \<Rightarrow> False
    | Inr b \<Rightarrow> totalRecipients b = 3 \<and> sent b = 3 \<and> failed b = 0)"
  using bulkSend_invalid_method_counts [of test_config test_world]
  by auto

section \<open>Service of process\<close>

lemma join_valid:
  "join '', '' VALID_SERVICE_TYPES = ''personal, substituted, constructive, publication''"
  by (simp add: VALID_SERVICE_TYPES_def)

text \<open>
  C7. For every service type outside \<open>personal\<close>, \<open>substituted\<close>, \<open>constructive\<close>,
  \<open>publication\<close>, \<open>initiate\<close> (also when reached through \<open>serve\<close>) throws the error
  \<open>Invalid service type: ...\<close> (the specification's InvalidServiceTypeError); for
  \<open>publication\<close> the case returned has \<open>requirements.courtOrderRequired = true\<close> and
  \<open>maxAttempts = 1\<close>.
\<close>

theorem initiate_service_types:
  "(t \<notin> set VALID_SERVICE_TYPES \<longrightarrow>
      fst (initiate (opts\<lparr>i_serviceType := Some t\<rparr>) w) =
        Inl (Error (''Invalid service type: '' @ t
                    @ ''. Valid types: personal, substituted, constructive, publication''))
    \<and> fst (serve mint (sopts\<lparr>sv_serviceType := Some t\<rparr>) w) =
        Inl (Error (''Invalid service type: '' @ t
                    @ ''. Valid types: personal, substituted, constructive, publication'')))
   \<and> (\<exists>c. fst (initiate (opts\<lparr>i_serviceType := Some ''publication''\<rparr>) w) = Inr c
          \<and> member (requirements c) ''courtOrderRequired'' = Inr (JBool True)
          \<and> maxAttempts c = JNumber (Num 1))
   \<and> (\<exists>c. fst (serve mint (sopts\<lparr>sv_serviceType := Some ''publication''\<rparr>) w) = Inr c
          \<and> member (requirements c) ''courtOrderRequired'' = Inr (JBool True)
          \<and> maxAttempts c = JNumber (Num 1))"
proof -
  have pub: "''publication'' \<in> set VALID_SERVICE_TYPES"
    by (simp add: VALID_SERVICE_TYPES_def)
  have req: "member (getRequirements ''publication'') ''courtOrderRequired'' = Inr (JBool True)"
    by (simp add: getRequirements_def reqs_def get_prop_def member_def)
  have att: "getMaxAttempts ''publication'' = JNumber (Num 1)"
    by (simp add: getMaxAttempts_def attempts_table_def get_prop_def)
  have bad: "fst (initiate o' w') =
        Inl (Error (''Invalid service type: '' @ t
                    @ ''. Valid types: personal, substituted, constructive, publication''))"
    if "t \<notin> set VALID_SERVICE_TYPES" and "i_serviceType o' = Some t" for o' w'
    using that by (simp add: initiate_def join_valid)
  have good: "\<exists>c. fst (initiate o' w') = Inr c
          \<and> member (requirements c) ''courtOrderRequired'' = Inr (JBool True)
          \<and> maxAttempts c = JNumber (Num 1)"
    if "i_serviceType o' = Some ''publication''" for o' w'
    using that pub req att
    by (simp add: initiate_def generateServiceId_def generateId_def getRandomValues_def
        Date_now_def Let_def)
  have serve_is_initiate: "\<exists>o' w'. serve mint (sopts\<lparr>sv_serviceType := Some u\<rparr>) w = initiate o' w'
      \<and> i_serviceType o' = Some u" for u
    by (simp add: serve_def Date_now_def, intro exI conjI, rule refl, simp)
  have c1: "t \<notin> set VALID_SERVICE_TYPES \<Longrightarrow>
      fst (initiate (opts\<lparr>i_serviceType := Some t\<rparr>) w) =
        Inl (Error (''Invalid service type: '' @ t
                    @ ''. Valid types: personal, substituted, constructive, publication''))"
    by (rule bad) simp_all
  have c2: "t \<notin> set VALID_SERVICE_TYPES \<Longrightarrow>
      fst (serve mint (sopts\<lparr>sv_serviceType := Some t\<rparr>) w) =
        Inl (Error (''Invalid service type: '' @ t
                    @ ''. Valid types: personal, substituted, constructive, publication''))"
    using serve_is_initiate [of t] bad by metis
  have c3: "\<exists>c. fst (initiate (opts\<lparr>i_serviceType := Some ''publication''\<rparr>) w) = Inr c
          \<and> member (requirements c) ''courtOrderRequired'' = Inr (JBool True)
          \<and> maxAttempts c = JNumber (Num 1)"
    by (rule good) simp
  have c4: "\<exists>c. fst (serve mint (sopts\<lparr>sv_serviceType := Some ''publication''\<rparr>) w) = Inr c
          \<and> member (requirements c) ''courtOrderRequired'' = Inr (JBool True)
          \<and> maxAttempts c = JNumber (Num 1)"
    using serve_is_initiate [of "''publication''"] good by metis
  from c1 c2 c3 c4 show ?thesis by blast
qed

theorem initiate_service_types_witness:
  "''telekinesis'' \<notin> set VALID_SERVICE_TYPES
   \<and> fst (serve (JString ''DM-TEST'') jane_doe test_world) =
       Inl (Error ''Invalid service type: telekinesis. Valid types: personal, substituted, constructive, publication'')"
proof -
  have a: "''telekinesis'' \<notin> set VALID_SERVICE_TYPES"
    by (simp add: VALID_SERVICE_TYPES_def)
  have b: "jane_doe\<lparr>sv_serviceType := Some ''telekinesis''\<rparr> = jane_doe"
    by (simp add: jane_doe_def)
  from initiate_service_types [of "''telekinesis''" _ test_world "JString ''DM-TEST''" jane_doe] a b
  show ?thesis by simp
qed

text \<open>
  C8. For each of the four service types and every details object, the three scores of
  the affidavit that \<open>recordAffidavit\<close> returns are the per-axis base of the type plus the
  bonuses that apply, capped at 100: admissibility +5 if notarized and +3 if a witness was
  present, technical +5 if geolocation-verified, persuasive +5 if notarized and +5 if a
  witness was present.
\<close>

theorem recordAffidavit_scores:
  assumes "t \<in> set VALID_SERVICE_TYPES"
  shows "af_proof (fst (recordAffidavit
            \<lparr>a_serviceId = sid, a_processServer = ps, a_serviceType = Some t,
             a_details = Some d, a_timestamp = ts\<rparr> w)) =
         \<lparr>ap_pillar = ''delivery'', ap_method = ''legalService'',
          ap_score = JNumber (Num (spec_admissibility t d)),
          ap_technical = JNumber (Num (spec_technical t d)),
          ap_arguable = JNumber (Num (spec_persuasive t d))\<rparr>"
proof -
  from assms consider "t = ''personal''" | "t = ''substituted''" | "t = ''constructive''"
    | "t = ''publication''"
    by (auto simp: VALID_SERVICE_TYPES_def)
  then have "scoreAffidavit t d = JNumber (Num (spec_admissibility t d))
      \<and> scoreTechnical t d = JNumber (Num (spec_technical t d))
      \<and> scoreArguable t d = JNumber (Num (spec_persuasive t d))"
    by cases
      (simp_all add: scoreAffidavit_def scoreTechnical_def scoreArguable_def get_prop_def
        affidavit_base_def technical_base_def arguable_base_def spec_admissibility_def
        spec_technical_def spec_persuasive_def spec_admissibility_base_def
        spec_technical_base_def spec_persuasive_base_def plus_if_def Let_def)
  then show ?thesis
    by (simp add: recordAffidavit_def generateAffidavitId_def generateId_def
        getRandomValues_def Date_now_def Let_def)
qed

theorem recordAffidavit_scores_witness:
  "''personal'' \<in> set VALID_SERVICE_TYPES
   \<and> af_proof (fst (recordAffidavit
        \<lparr>a_serviceId = JString ''DS-TEST-123'', a_processServer = JString ''SERVER-001'',
         a_serviceType = Some ''personal'',
         a_details = Some (no_details\<lparr>dt_notarized := JBool True, dt_witnessPresent := JBool True\<rparr>),
         a_timestamp = JTime 1000\<rparr> test_world)) =
       \<lparr>ap_pillar = ''delivery'', ap_method = ''legalService'', ap_score = JNumber (Num 100),
        ap_technical = JNumber (Num 90), ap_arguable = JNumber (Num 100)\<rparr>"
proof -
  have a: "''personal'' \<in> set VALID_SERVICE_TYPES"
    by (simp add: VALID_SERVICE_TYPES_def)
  from recordAffidavit_scores [OF a] a show ?thesis
    by (simp add: spec_admissibility_def spec_technical_def spec_persuasive_def
        spec_admissibility_base_def spec_technical_base_def spec_persuasive_base_def
        plus_if_def no_details_def)
qed

lemma unlisted_service_type_scores:
  "scoreAffidavit ''telekinesis'' no_details = JNumber (Num 70)"
  "scoreTechnical ''telekinesis'' no_details = JNumber (Num 65)"
  "scoreArguable ''telekinesis'' no_details = JNumber (Num 70)"
  by (simp_all add: scoreAffidavit_def scoreTechnical_def scoreArguable_def get_prop_def
      affidavit_base_def technical_base_def arguable_base_def object_prototype_keys_def
      no_details_def)

section \<open>Base64 round trip\<close>

lemma btoa_split: "btoa s = map b64_char (sextets_of s) @ padding s"
  by (induction s rule: btoa.induct) (simp_all add: Let_def)

lemma of_char_less: "(of_char c :: nat) < 256"
  by (rule nat_of_char_less_256)

lemma sextet_bounds:
  assumes "x < 256" "y < 256" "z < (256::nat)"
  shows "x div 4 < 64" "(x mod 4) * 16 + y div 16 < 64" "(y mod 16) * 4 + z div 64 < 64"
    "z mod 64 < 64" "(y mod 16) * 4 < 64" "(x mod 4) * 16 < 64"
  using assms by auto

lemma sextets_small: "n \<in> set (sextets_of s) \<Longrightarrow> n < 64"
proof (induction s arbitrary: n rule: sextets_of.induct)
  case (1 a b c rest)
  have "(of_char a :: nat) < 256" "(of_char b :: nat) < 256" "(of_char c :: nat) < 256"
    by (rule of_char_less)+
  from sextet_bounds [OF this] 1 show ?case
    by (auto simp: Let_def)
next
  case (2 a b)
  have "(of_char a :: nat) < 256" "(of_char b :: nat) < 256" "(0 :: nat) < 256"
    by (rule of_char_less)+ simp
  from sextet_bounds [OF this] 2 show ?case
    by (auto simp: Let_def)
next
  case (3 a)
  have "(of_char a :: nat) < 256" "(0 :: nat) < 256" "(0 :: nat) < 256"
    by (rule of_char_less) simp_all
  from sextet_bounds [OF this] 3 show ?case
    by (auto simp: Let_def)
next
  case 4
  then show ?case by simp
qed

text \<open>Three bytes are recovered from their four sextets.\<close>

lemma triple_back:
  assumes "x < 256" "y < 256" "z < (256::nat)"
  shows "x div 4 * 4 + ((x mod 4) * 16 + y div 16) div 16 = x"
    and "(((x mod 4) * 16 + y div 16) mod 16) * 16 + ((y mod 16) * 4 + z div 64) div 4 = y"
    and "(((y mod 16) * 4 + z div 64) mod 4) * 64 + z mod 64 = z"
  using assms by auto

lemma decode_sextets_of: "decode_sextets (sextets_of s) = map of_char s"
proof (induction s rule: sextets_of.induct)
  case (1 a b c rest)
  have "(of_char a :: nat) < 256" "(of_char b :: nat) < 256" "(of_char c :: nat) < 256"
    by (rule of_char_less)+
  from triple_back [OF this] 1 show ?case by (simp add: Let_def)
next
  case (2 a b)
  have "(of_char a :: nat) < 256" "(of_char b :: nat) < 256" "(0 :: nat) < 256"
    by (rule of_char_less)+ simp
  from triple_back(1,2) [OF this] show ?case by (simp add: Let_def)
next
  case (3 a)
  have "(of_char a :: nat) < 256" "(0 :: nat) < 256" "(0 :: nat) < 256"
    by (rule of_char_less) simp_all
  from triple_back(1) [OF this] show ?case by (simp add: Let_def)
next
  case 4
  then show ?case by simp
qed

lemma below_64: "n < 64 \<Longrightarrow> n \<in> set [0 ..< 64]"
  by simp

lemma alphabet_all:
  "\<forall>n \<in> set [0 ..< 64]. b64_index (b64_char n) = Some n \<and> b64_char n \<noteq> CHR ''=''
      \<and> \<not> ascii_whitespace (b64_char n)"
  by code_simp

lemma b64_index_char: "n < 64 \<Longrightarrow> b64_index (b64_char n) = Some n"
  using alphabet_all below_64 by blast

lemma b64_char_plain: "n < 64 \<Longrightarrow> b64_char n \<noteq> CHR ''='' \<and> \<not> ascii_whitespace (b64_char n)"
  using alphabet_all below_64 by blast

lemma those_index_chars:
  "\<forall>n \<in> set ns. n < 64 \<Longrightarrow> those (map b64_index (map b64_char ns)) = Some ns"
  by (induction ns) (simp_all add: b64_index_char)

lemma padding_cases: "padding s = [] \<or> padding s = ''='' \<or> padding s = ''==''"
  by (induction s rule: padding.induct) simp_all

lemma length_btoa: "length (btoa s) mod 4 = 0"
  by (induction s rule: btoa.induct) (simp_all add: Let_def)

lemma length_sextets: "length (sextets_of s) mod 4 \<noteq> 1"
  by (induction s rule: sextets_of.induct) (simp_all add: Let_def)

lemma no_whitespace_btoa: "filter (\<lambda>c. \<not> ascii_whitespace c) (btoa s) = btoa s"
proof -
  have "\<not> ascii_whitespace c" if "c \<in> set (btoa s)" for c
  proof -
    from that padding_cases [of s]
    have "c \<in> b64_char ` set (sextets_of s) \<or> c = CHR ''=''"
      by (auto simp: btoa_split)
    then show ?thesis
    proof
      assume "c \<in> b64_char ` set (sextets_of s)"
      then show ?thesis using b64_char_plain sextets_small by blast
    next
      assume "c = CHR ''=''"
      then show ?thesis by (simp add: ascii_whitespace_def)
    qed
  qed
  then show ?thesis by (simp add: filter_id_conv)
qed

lemma strip_padding_no_pad:
  assumes "\<forall>c \<in> set core. c \<noteq> CHR ''=''"
  shows "strip_padding core = core"
proof (cases "rev core")
  case Nil
  then show ?thesis by (simp add: strip_padding_def)
next
  case (Cons a r)
  then have "a \<in> set core" by (metis list.set_intros(1) set_rev)
  with assms have "a \<noteq> CHR ''=''" by blast
  with Cons show ?thesis by (cases r) (simp_all add: strip_padding_def)
qed

lemma strip_padding_one:
  assumes "\<forall>c \<in> set core. c \<noteq> CHR ''=''" and "length (core @ ''='') mod 4 = 0"
  shows "strip_padding (core @ ''='') = core"
proof (cases "rev core")
  case Nil
  with assms(2) show ?thesis by simp
next
  case (Cons a r)
  then have "a \<in> set core" by (metis list.set_intros(1) set_rev)
  with assms have a: "a \<noteq> CHR ''=''" by blast
  from Cons have "core = rev r @ [a]" by (metis rev.simps(2) rev_rev_ident)
  with a assms(2) show ?thesis by (simp add: strip_padding_def)
qed

lemma strip_padding_two:
  assumes "length (core @ ''=='') mod 4 = 0"
  shows "strip_padding (core @ ''=='') = core"
  using assms by (simp add: strip_padding_def)

lemma strip_padding_btoa: "strip_padding (btoa s) = map b64_char (sextets_of s)"
proof -
  let ?core = "map b64_char (sextets_of s)"
  have core: "\<forall>c \<in> set ?core. c \<noteq> CHR ''=''"
    using b64_char_plain sextets_small by auto
  have len: "length (?core @ padding s) mod 4 = 0"
    using length_btoa [of s] by (simp add: btoa_split)
  from padding_cases [of s] show ?thesis
  proof (elim disjE)
    assume "padding s = []"
    with core show ?thesis by (simp add: btoa_split strip_padding_no_pad)
  next
    assume p: "padding s = ''=''"
    with len have "length (?core @ ''='') mod 4 = 0" by simp
    from strip_padding_one [OF core this] p show ?thesis by (simp add: btoa_split)
  next
    assume p: "padding s = ''==''"
    with len have "length (?core @ ''=='') mod 4 = 0" by simp
    from strip_padding_two [OF this] p show ?thesis by (simp add: btoa_split)
  qed
qed

text \<open>\<open>atob\<close> undoes \<open>btoa\<close>, on every binary string.\<close>

lemma atob_btoa: "atob (btoa s) = Inr s"
proof -
  have "\<forall>n \<in> set (sextets_of s). n < 64"
    using sextets_small by blast
  then have "those (map b64_index (map b64_char (sextets_of s))) = Some (sextets_of s)"
    by (rule those_index_chars)
  moreover have "length (map b64_char (sextets_of s)) mod 4 \<noteq> 1"
    using length_sextets by simp
  moreover have "map char_of (map (of_char :: char \<Rightarrow> nat) s) = s"
    by (induction s) simp_all
  ultimately show ?thesis
    by (simp add: atob_def no_whitespace_btoa strip_padding_btoa decode_sextets_of
        del: map_map)
qed

lemma byte_back: "word_of_nat (unat a mod 256) = (a :: 8 word)"
proof -
  have "unat a < 2 ^ LENGTH(8)"
    by (rule unsigned_less)
  then have "unat a mod 256 = unat a"
    by simp
  then show ?thesis
    by simp
qed

lemma bytes_binary: "bytes_of_binary (binary_of_bytes bs) = bs"
  by (induction bs) (simp_all add: bytes_of_binary_def binary_of_bytes_def byte_back)

lemma base64_roundtrip: "base64_to_bytes (bufferToBase64 bs) = Inr bs"
  by (simp add: base64_to_bytes_def bufferToBase64_def atob_btoa bytes_binary)

text \<open>The bits that the decoding discards: two encodings of the one byte 65.\<close>

lemma atob_discards_bits: "atob ''QQ=='' = Inr ''A''" "atob ''QR=='' = Inr ''A''"
  by code_simp+

section \<open>Receipts: creation and verification\<close>

lemma getServiceKeyPair_Inr:
  assumes "getServiceKeyPair P s w = (Inr (sk, pk), s0, w0)"
    and "\<forall>a b. keyPair s = Some (a, b) \<longrightarrow> matching P a b"
  shows "matching P sk pk \<and> keyPair s0 = Some (sk, pk) \<and> receipts s0 = receipts s
         \<and> signingKeyJwk s0 = signingKeyJwk s"
  using assms
  by (auto simp: getServiceKeyPair_def matching_def Let_def
      split: option.splits sum.splits prod.splits if_splits)

lemma getServiceKeyPair_Inl:
  assumes "getServiceKeyPair P s w = (Inl e, s0, w0)"
  shows "s0 = s"
  using assms
  by (auto simp: getServiceKeyPair_def Let_def
      split: option.splits sum.splits prod.splits if_splits)

text \<open>What a receipt returned by \<open>create\<close> holds, and what \<open>create\<close> did to the engine.\<close>

lemma create_Inr:
  assumes "create P s options w = (Inr r, s1, w1)"
  shows "\<exists>sk pk nonce s0 wa wb drand.
      getServiceKeyPair P s wa = (Inr (sk, pk), s0, wb)
    \<and> fetchDrandRound (snd (generateReceiptId w)) = (drand, wa)
    \<and> sg_value (rc_signature r) =
        bufferToBase64 (subtle_sign P sk nonce (encode (sg_signedPayload (rc_signature r))))
    \<and> sg_publicKey (rc_signature r) = bufferToBase64 (subtle_exportSpki P pk)
    \<and> rc_drand r = map_option (\<lambda>d. \<lparr>an_round = dr_round d, an_randomness = dr_randomness d,
                                 an_signature = dr_signature d, an_beacon = DRAND_URL,
                                 an_chainHash = DRAND_CHAIN_HASH\<rparr>) drand
    \<and> rc_receiptId r = fst (generateReceiptId w)
    \<and> s1 = s0\<lparr>receipts := (receipts s0)(rc_receiptId r \<mapsto> r)\<rparr>"
  using assms
  by (auto simp: create_def Let_def split: prod.splits sum.splits option.splits)

lemma create_Inl:
  assumes "create P s options w = (Inl e, s1, w1)"
  shows "s1 = s \<and> (\<exists>wa wb. getServiceKeyPair P s wa = (Inl e, s, wb))"
  using assms
  by (auto simp: create_def Let_def split: prod.splits sum.splits dest: getServiceKeyPair_Inl)

lemma create_genuine:
  assumes sound: "sound_platform P" and ok: "engine_ok P s"
    and c: "create P s options w = (Inr r, s1, w1)"
  shows "genuine P r \<and> engine_ok P s1 \<and> receipts s1 (rc_receiptId r) = Some r
    \<and> dom (receipts s) \<subseteq> dom (receipts s1)"
proof -
  from create_Inr [OF c] obtain sk pk nonce s0 wa wb drand where
    k: "getServiceKeyPair P s wa = (Inr (sk, pk), s0, wb)"
    and v: "sg_value (rc_signature r) =
        bufferToBase64 (subtle_sign P sk nonce (encode (sg_signedPayload (rc_signature r))))"
    and pk: "sg_publicKey (rc_signature r) = bufferToBase64 (subtle_exportSpki P pk)"
    and s1: "s1 = s0\<lparr>receipts := (receipts s0)(rc_receiptId r \<mapsto> r)\<rparr>"
    by blast
  from ok have keys: "\<forall>a b. keyPair s = Some (a, b) \<longrightarrow> matching P a b"
    by (simp add: engine_ok_def)
  from getServiceKeyPair_Inr [OF k keys]
  have m: "matching P sk pk" and kp: "keyPair s0 = Some (sk, pk)"
    and rs: "receipts s0 = receipts s"
    by simp_all
  from sound m obtain imported where
    imp: "subtle_importSpki P (subtle_exportSpki P pk) = Inr imported"
    and ver: "subtle_verify P imported
        (subtle_sign P sk nonce (encode (sg_signedPayload (rc_signature r))))
        (encode (sg_signedPayload (rc_signature r)))"
    unfolding sound_platform_def by blast
  have g: "genuine P r"
    by (simp add: genuine_def verify_try_def v pk base64_roundtrip imp ver)
  from ok have stored: "\<forall>i x. receipts s i = Some x \<longrightarrow> genuine P x"
    by (simp add: engine_ok_def)
  have "engine_ok P s1"
    using g m kp rs stored by (auto simp: engine_ok_def s1)
  moreover have "receipts s1 (rc_receiptId r) = Some r"
    by (simp add: s1)
  moreover have "dom (receipts s) \<subseteq> dom (receipts s1)"
    by (auto simp: s1 rs)
  ultimately show ?thesis using g by blast
qed

lemma create_step:
  assumes "sound_platform P" and "engine_ok P s" and "create P s options w = (result, s1, w1)"
  shows "engine_ok P s1 \<and> dom (receipts s) \<subseteq> dom (receipts s1)"
proof (cases result)
  case (Inl e)
  with assms(3) create_Inl have "s1 = s" by blast
  with assms(2) show ?thesis by simp
next
  case (Inr r)
  with assms create_genuine show ?thesis by blast
qed

text \<open>The invariant, and the identifiers in the store, survive any later \<open>create\<close> calls.\<close>

lemma creates_preserve:
  assumes "sound_platform P"
  shows "engine_ok P s \<Longrightarrow>
    engine_ok P (creates P s calls) \<and> dom (receipts s) \<subseteq> dom (receipts (creates P s calls))"
proof (induction calls arbitrary: s)
  case Nil
  then show ?case by simp
next
  case (Cons call calls)
  obtain options w where call: "call = (options, w)" by (cases call)
  obtain result s1 w1 where c: "create P s options w = (result, s1, w1)"
    by (cases "create P s options w")
  from create_step [OF assms Cons.prems c]
  have ok1: "engine_ok P s1" and d1: "dom (receipts s) \<subseteq> dom (receipts s1)"
    by simp_all
  from Cons.IH [OF ok1] d1 show ?case
    by (auto simp: call c)
qed

lemma verify_stored:
  assumes "engine_ok P s" and "receiptId \<in> dom (receipts s)"
  shows "verify P s receiptId None w =
    (Verdict receiptId True (clock w (reads w)), w\<lparr>reads := Suc (reads w)\<rparr>)"
proof -
  from assms(2) obtain r where r: "receipts s receiptId = Some r" by blast
  with assms(1) have "verify_try P (rc_signature r) = Inr True"
    by (simp add: engine_ok_def genuine_def)
  with r show ?thesis
    by (simp add: verify_def getById_def data_of_def Date_now_def)
qed

text \<open>
  C2. With a platform whose signatures are correct, and an engine whose cached key pair
  (if any) matches: every receipt that \<open>create\<close> returns is stored under its identifier,
  and \<open>verify(receiptId)\<close> without receipt data, right away or after any number of later
  \<open>create\<close> calls, looks it up and returns the verdict \<open>verified = true\<close>; the Base64
  signature in the receipt is the signature of exactly the UTF-8 bytes of the stored
  \<open>signedPayload\<close>.
\<close>

theorem receipt_round_trip:
  assumes "sound_platform P" and "engine_ok P s"
    and "create P s options w = (Inr r, s1, w1)"
  shows "getById s1 (rc_receiptId r) = Some r
    \<and> (\<forall>calls w'. \<exists>t w''. verify P (creates P s1 calls) (rc_receiptId r) None w'
                          = (Verdict (rc_receiptId r) True t, w''))
    \<and> (\<forall>calls w'. verified (fst (verify P (creates P s1 calls) (rc_receiptId r) None w')))
    \<and> (\<exists>privateKey nonce. sg_value (rc_signature r) =
          bufferToBase64 (subtle_sign P privateKey nonce (encode (sg_signedPayload (rc_signature r)))))"
proof -
  from create_genuine [OF assms]
  have ok1: "engine_ok P s1" and st: "receipts s1 (rc_receiptId r) = Some r"
    by simp_all
  have later: "verify P (creates P s1 calls) (rc_receiptId r) None w'
      = (Verdict (rc_receiptId r) True (clock w' (reads w')), w'\<lparr>reads := Suc (reads w')\<rparr>)"
    for calls w'
  proof -
    from creates_preserve [OF assms(1) ok1, of calls] st
    have "engine_ok P (creates P s1 calls)"
      and "rc_receiptId r \<in> dom (receipts (creates P s1 calls))"
      by auto
    then show ?thesis by (rule verify_stored)
  qed
  from create_Inr [OF assms(3)] have bytes: "\<exists>privateKey nonce. sg_value (rc_signature r) =
          bufferToBase64 (subtle_sign P privateKey nonce (encode (sg_signedPayload (rc_signature r))))"
    by blast
  from st later bytes show ?thesis
    by (simp add: getById_def)
qed

subsection \<open>The stand-in platform meets the requirements\<close>

lemma stub_matching: "matching stub_platform sk pk \<Longrightarrow> sk = pk \<and> pk \<noteq> []"
  by (auto simp: matching_def stub_platform_def split: if_splits)

lemma sound_stub: "sound_platform stub_platform"
  unfolding sound_platform_def
proof (intro allI impI)
  fix sk pk nonce data
  assume "matching stub_platform sk pk"
  then have "sk = pk" and "pk \<noteq> []"
    using stub_matching by blast+
  then show "\<exists>imported.
      subtle_importSpki stub_platform (subtle_exportSpki stub_platform pk) = Inr imported
      \<and> subtle_verify stub_platform imported (subtle_sign stub_platform sk nonce data) data"
    by (simp add: stub_platform_def)
qed

lemma ideal_stub: "ideal_signatures stub_platform"
  unfolding ideal_signatures_def
proof (intro allI impI)
  fix sk pk imported nonce data sigBytes
  assume "matching stub_platform sk pk"
    and "subtle_importSpki stub_platform (subtle_exportSpki stub_platform pk) = Inr imported"
  moreover from this have "sk = pk" and "pk \<noteq> []"
    using stub_matching by blast+
  ultimately show "(subtle_verify stub_platform imported sigBytes data
        \<longleftrightarrow> sigBytes = subtle_sign stub_platform sk nonce data)
      \<and> (\<forall>nonce' data'. subtle_sign stub_platform sk nonce data
              = subtle_sign stub_platform sk nonce' data' \<longrightarrow> data = data')"
    by (simp add: stub_platform_def)
qed

lemma engine_ok_new: "engine_ok P (new_engine jwk)"
  by (simp add: engine_ok_def new_engine_def)

lemma key_available_stub: "key_available stub_platform (new_engine None)"
  by (simp add: key_available_def getServiceKeyPair_def new_engine_def getRandomValues_def
      stub_platform_def)

lemma create_returns:
  assumes "key_available P s"
  shows "\<exists>r s1 w1. create P s options w = (Inr r, s1, w1)"
proof -
  obtain rid wa where i: "generateReceiptId w = (rid, wa)"
    by (cases "generateReceiptId w")
  obtain drand wb where f: "fetchDrandRound wa = (drand, wb)"
    by (cases "fetchDrandRound wa")
  from assms obtain kp s0 wc where k: "getServiceKeyPair P s wb = (Inr kp, s0, wc)"
    unfolding key_available_def by blast
  obtain sk pk where kp: "kp = (sk, pk)"
    by (cases kp)
  obtain nonce wd where n: "getRandomValues 32 wc = (nonce, wd)"
    by (cases "getRandomValues 32 wc")
  show ?thesis
    by (simp add: create_def i f k kp n Let_def)
qed

theorem receipt_round_trip_witness:
  "sound_platform stub_platform \<and> engine_ok stub_platform (new_engine None)
   \<and> (\<exists>r s1 w1. create stub_platform (new_engine None) receipt_options test_world = (Inr r, s1, w1)
         \<and> getById s1 (rc_receiptId r) = Some r
         \<and> verified (fst (verify stub_platform s1 (rc_receiptId r) None test_world)))"
proof -
  from create_returns [OF key_available_stub] obtain r s1 w1 where
    c: "create stub_platform (new_engine None) receipt_options test_world = (Inr r, s1, w1)"
    by blast
  from receipt_round_trip [OF sound_stub engine_ok_new c]
  have "getById s1 (rc_receiptId r) = Some r"
    and "\<forall>calls w'. verified (fst (verify stub_platform (creates stub_platform s1 calls)
            (rc_receiptId r) None w'))"
    by blast+
  from this(1) this(2) [rule_format, of "[]" test_world] c sound_stub engine_ok_new
  show ?thesis by auto
qed

subsection \<open>Verification reads the receipt only\<close>

text \<open>
  C3. The result of \<open>verify\<close> on given receipt data is the same in any two engines, whatever
  key pair each holds or lacks and whatever key each is configured with: \<open>verify\<close> reads
  \<open>signature.publicKey\<close>, \<open>signature.value\<close> and \<open>signature.signedPayload\<close> of the data (and
  the clock for the timestamp of its answer). Without supplied data the same holds for two
  engines that store the same receipt under the identifier.
\<close>

theorem verify_self_contained:
  "verify P s1 receiptId (Some receiptData) w = verify P s2 receiptId (Some receiptData) w
   \<and> (receipts s1 receiptId = receipts s2 receiptId \<longrightarrow>
        verify P s1 receiptId None w = verify P s2 receiptId None w)
   \<and> verify P (s\<lparr>keyPair := kp, signingKeyJwk := jwk\<rparr>) receiptId given w
        = verify P s receiptId given w"
  by (cases given) (simp_all add: verify_def getById_def)

theorem verify_self_contained_witness:
  "receipts (new_engine None) ''DR-RS-031425364758''
     = receipts ((new_engine (Some ''jwk''))\<lparr>keyPair := Some ([1], [2])\<rparr>) ''DR-RS-031425364758''
   \<and> verify stub_platform (new_engine None) ''DR-RS-031425364758'' None test_world
     = verify stub_platform ((new_engine (Some ''jwk''))\<lparr>keyPair := Some ([1], [2])\<rparr>)
         ''DR-RS-031425364758'' None test_world
   \<and> verify stub_platform (new_engine None) ''DR-RS-031425364758''
         (Some \<lparr>rd_signature = Some issued_signature\<rparr>) test_world
     = verify stub_platform ((new_engine (Some ''jwk''))\<lparr>keyPair := Some ([1], [2])\<rparr>)
         ''DR-RS-031425364758'' (Some \<lparr>rd_signature = Some issued_signature\<rparr>) test_world"
proof -
  have same: "receipts (new_engine None) ''DR-RS-031425364758''
     = receipts ((new_engine (Some ''jwk''))\<lparr>keyPair := Some ([1], [2])\<rparr>) ''DR-RS-031425364758''"
    by (simp add: new_engine_def)
  from verify_self_contained [of stub_platform "new_engine None" "''DR-RS-031425364758''"
      "\<lparr>rd_signature = Some issued_signature\<rparr>" test_world
      "(new_engine (Some ''jwk''))\<lparr>keyPair := Some ([1], [2])\<rparr>"] same
  show ?thesis by blast
qed

subsection \<open>The temporal anchor\<close>

lemma generateId_outside:
  "beacon (snd (generateId p n w)) = beacon w \<and> fetched (snd (generateId p n w)) = fetched w"
  by (simp add: generateId_def getRandomValues_def Date_now_def)

lemma not_inherited:
  "''round'' \<notin> set object_prototype_keys" "''randomness'' \<notin> set object_prototype_keys"
  "''signature'' \<notin> set object_prototype_keys"
  by (simp_all add: object_prototype_keys_def)

lemma lacking_member:
  assumes "lacks data k" and "k \<notin> set object_prototype_keys"
  shows "member data k = Inr JUndefined \<or> (\<exists>e. member data k = Inl e)"
  using assms by (cases data) (simp_all add: lacks_def member_def get_prop_def)

lemma fetch_unavailable:
  assumes "unavailable (beacon w (fetched w))"
  shows "fst (fetchDrandRound w) = None"
proof (cases "beacon w (fetched w)")
  case (NetworkFailure m)
  then show ?thesis
    by (simp add: fetchDrandRound_def fetchDrandRound_try_def fetch_def)
next
  case (Response status statusText body)
  show ?thesis
  proof (cases body)
    case (Unparsable m)
    with Response show ?thesis
      by (simp add: fetchDrandRound_def fetchDrandRound_try_def fetch_def)
  next
    case (Json data)
    with Response assms
    consider "\<not> response_ok status" | "lacks data ''round''" | "lacks data ''randomness''"
      | "lacks data ''signature''"
      by (auto simp: response_ok_def)
    then show ?thesis
    proof cases
      case 1
      with Response Json show ?thesis
        by (simp add: fetchDrandRound_def fetchDrandRound_try_def fetch_def)
    next
      case 2
      from lacking_member [OF this not_inherited(1)] Response Json show ?thesis
        by (auto simp: fetchDrandRound_def fetchDrandRound_try_def fetch_def
            split: sum.splits)
    next
      case 3
      from lacking_member [OF this not_inherited(2)] Response Json show ?thesis
        by (auto simp: fetchDrandRound_def fetchDrandRound_try_def fetch_def
            split: sum.splits)
    next
      case 4
      from lacking_member [OF this not_inherited(3)] Response Json show ?thesis
        by (auto simp: fetchDrandRound_def fetchDrandRound_try_def fetch_def
            split: sum.splits)
    qed
  qed
qed

text \<open>
  C6, as the code has it. The fetch never throws: whatever its \<open>try\<close> block throws becomes
  \<open>null\<close>. On a network failure, a response whose status is outside 200 to 299, a body
  that is not JSON, or a payload lacking \<open>round\<close>, \<open>randomness\<close> or \<open>signature\<close> it returns
  \<open>null\<close>; and \<open>create\<close>, when the signing key can be had, then still returns a receipt
  whose anchor block is \<open>null\<close> and which verifies as true.
\<close>

theorem anchor_unavailable:
  assumes "sound_platform P" and "engine_ok P s" and "key_available P s"
    and "unavailable (beacon w (fetched w))"
  shows "fst (fetchDrandRound w) = None
    \<and> (\<forall>e w1. fetchDrandRound_try w = (Inl e, w1) \<longrightarrow> fetchDrandRound w = (None, w1))
    \<and> (\<exists>r s1 w1. create P s options w = (Inr r, s1, w1) \<and> rc_drand r = None
          \<and> (\<forall>w'. verified (fst (verify P s1 (rc_receiptId r) None w'))))"
proof -
  have a: "fst (fetchDrandRound w) = None"
    using assms(4) by (rule fetch_unavailable)
  have b: "\<forall>e w1. fetchDrandRound_try w = (Inl e, w1) \<longrightarrow> fetchDrandRound w = (None, w1)"
    by (simp add: fetchDrandRound_def)
  from create_returns [OF assms(3)] obtain r s1 w1 where
    c: "create P s options w = (Inr r, s1, w1)"
    by blast
  from create_Inr [OF c] obtain drand wa where
    f: "fetchDrandRound (snd (generateReceiptId w)) = (drand, wa)"
    and d: "rc_drand r = map_option (\<lambda>d. \<lparr>an_round = dr_round d, an_randomness = dr_randomness d,
                                 an_signature = dr_signature d, an_beacon = DRAND_URL,
                                 an_chainHash = DRAND_CHAIN_HASH\<rparr>) drand"
    by blast
  have "unavailable (beacon (snd (generateReceiptId w)) (fetched (snd (generateReceiptId w))))"
    using assms(4) by (simp add: generateReceiptId_def generateId_outside)
  then have "fst (fetchDrandRound (snd (generateReceiptId w))) = None"
    by (rule fetch_unavailable)
  with f d have none: "rc_drand r = None"
    by simp
  from create_genuine [OF assms(1) assms(2) c]
  have ok1: "engine_ok P s1" and st: "rc_receiptId r \<in> dom (receipts s1)"
    by auto
  have "\<forall>w'. verified (fst (verify P s1 (rc_receiptId r) None w'))"
    by (simp add: verify_stored [OF ok1 st])
  with a b c none show ?thesis by blast
qed

theorem anchor_unavailable_witness:
  "sound_platform stub_platform \<and> engine_ok stub_platform (new_engine None)
   \<and> key_available stub_platform (new_engine None)
   \<and> unavailable (beacon test_world (fetched test_world))
   \<and> fst (fetchDrandRound test_world) = None
   \<and> (\<exists>r s1 w1. create stub_platform (new_engine None) receipt_options test_world = (Inr r, s1, w1)
         \<and> rc_drand r = None
         \<and> verified (fst (verify stub_platform s1 (rc_receiptId r) None test_world)))"
proof -
  have u: "unavailable (beacon test_world (fetched test_world))"
    by (simp add: test_world_def)
  from anchor_unavailable [OF sound_stub engine_ok_new key_available_stub u,
      of receipt_options]
    sound_stub engine_ok_new key_available_stub u
  show ?thesis by blast
qed

text \<open>
  The claim as worded fails: a response that is not 200 but is a success (here 201) with
  a complete payload gives an anchor, not \<open>null\<close>.
\<close>

theorem non_200_response_gives_anchor:
  "beacon created_world (fetched created_world) =
     Response 201 ''Created''
       (Json (JObject [(''round'', JNumber (Num 7)), (''randomness'', JString ''ab''),
                       (''signature'', JString ''cd'')]))
   \<and> fst (fetchDrandRound created_world) =
       Some \<lparr>dr_round = JNumber (Num 7), dr_randomness = JString ''ab'',
             dr_signature = JString ''cd''\<rparr>"
  by (simp add: created_world_def test_world_def fetchDrandRound_def fetchDrandRound_try_def
      fetch_def response_ok_def member_def get_prop_def)

subsection \<open>Tampering\<close>

lemma byte_of_nat_inj:
  assumes "a < 256" and "b < 256" and "(of_nat a :: 8 word) = of_nat b"
  shows "a = b"
proof -
  from assms(3) have "unat (of_nat a :: 8 word) = unat (of_nat b :: 8 word)"
    by simp
  with assms(1,2) show ?thesis
    by (simp add: unat_of_nat)
qed

lemma utf8_char_low: "(of_char c :: nat) < 128 \<Longrightarrow> utf8_char c = [of_nat (of_char c)]"
  by (simp add: utf8_char_def)

lemma utf8_char_high:
  "\<not> (of_char c :: nat) < 128 \<Longrightarrow>
   utf8_char c = [of_nat (192 + of_char c div 64), of_nat (128 + of_char c mod 64)]"
  by (simp add: utf8_char_def Let_def)

lemma utf8_char_prefix:
  assumes "utf8_char c @ xs = utf8_char d @ ys"
  shows "c = d \<and> xs = ys"
proof -
  let ?n = "of_char c :: nat" and ?m = "of_char d :: nat"
  have n: "?n < 256" and m: "?m < 256"
    by (rule of_char_less)+
  have eq: "?n = ?m \<and> xs = ys"
  proof (cases "?n < 128")
    case True
    note cn = True
    show ?thesis
    proof (cases "?m < 128")
      case True
      from assms have "[of_nat ?n :: 8 word] @ xs = [of_nat ?m] @ ys"
        by (simp only: utf8_char_low [OF cn] utf8_char_low [OF True])
      then have "(of_nat ?n :: 8 word) = of_nat ?m" and "xs = ys"
        by (simp_all only: append_Cons append_Nil list.inject)
      with byte_of_nat_inj [OF n m] show ?thesis by simp
    next
      case False
      from assms have "[of_nat ?n :: 8 word] @ xs
          = [of_nat (192 + ?m div 64), of_nat (128 + ?m mod 64)] @ ys"
        by (simp only: utf8_char_low [OF cn] utf8_char_high [OF False])
      then have "(of_nat ?n :: 8 word) = of_nat (192 + ?m div 64)"
        by (simp only: append_Cons append_Nil list.inject)
      moreover from m have "192 + ?m div 64 < 256" by arith
      ultimately have "?n = 192 + ?m div 64"
        using byte_of_nat_inj n by blast
      with cn show ?thesis by simp
    qed
  next
    case False
    note cn = False
    show ?thesis
    proof (cases "?m < 128")
      case True
      from assms have "[of_nat (192 + ?n div 64), of_nat (128 + ?n mod 64)] @ xs
          = [of_nat ?m :: 8 word] @ ys"
        by (simp only: utf8_char_low [OF True] utf8_char_high [OF cn])
      then have "(of_nat (192 + ?n div 64) :: 8 word) = of_nat ?m"
        by (simp only: append_Cons append_Nil list.inject)
      moreover from n have "192 + ?n div 64 < 256" by arith
      ultimately have "192 + ?n div 64 = ?m"
        using byte_of_nat_inj m by blast
      with True show ?thesis by simp
    next
      case False
      from assms have "[of_nat (192 + ?n div 64), of_nat (128 + ?n mod 64)] @ xs
          = [of_nat (192 + ?m div 64) :: 8 word, of_nat (128 + ?m mod 64)] @ ys"
        by (simp only: utf8_char_high [OF False] utf8_char_high [OF cn])
      then have h: "(of_nat (192 + ?n div 64) :: 8 word) = of_nat (192 + ?m div 64)"
        and l: "(of_nat (128 + ?n mod 64) :: 8 word) = of_nat (128 + ?m mod 64)"
        and r: "xs = ys"
        by (simp_all only: append_Cons append_Nil list.inject)
      from n m have "192 + ?n div 64 < 256" "192 + ?m div 64 < 256"
        "128 + ?n mod 64 < 256" "128 + ?m mod 64 < 256"
        by arith+
      with h l have "192 + ?n div 64 = 192 + ?m div 64" "128 + ?n mod 64 = 128 + ?m mod 64"
        using byte_of_nat_inj by blast+
      then have "?n div 64 = ?m div 64" "?n mod 64 = ?m mod 64"
        by simp_all
      then have "?n = ?m"
        by (metis div_mult_mod_eq)
      with r show ?thesis by simp
    qed
  qed
  then show ?thesis by simp
qed

lemma utf8_char_not_Nil: "utf8_char c \<noteq> []"
  by (simp add: utf8_char_def Let_def)

text \<open>Different strings have different UTF-8 bytes.\<close>

lemma encode_inj: "encode s = encode t \<Longrightarrow> s = t"
proof (induction s arbitrary: t)
  case Nil
  then show ?case
    using utf8_char_not_Nil by (cases t) (simp_all add: encode_def)
next
  case (Cons c s)
  show ?case
  proof (cases t)
    case Nil
    with Cons.prems show ?thesis
      using utf8_char_not_Nil by (simp add: encode_def)
  next
    case (Cons d t')
    with Cons.prems have "utf8_char c @ encode s = utf8_char d @ encode t'"
      by (simp add: encode_def)
    from utf8_char_prefix [OF this] Cons.IH Cons show ?thesis
      by simp
  qed
qed

lemma verify_supplied:
  "verify P e rid (Some \<lparr>rd_signature = Some sg\<rparr>) w =
     (case verify_try P sg of
        Inr valid \<Rightarrow> (Verdict rid valid (clock w (reads w)), w\<lparr>reads := Suc (reads w)\<rparr>)
      | Inl error \<Rightarrow> (SystemError rid (''Verification system error: '' @ error_message error), w))"
  by (simp add: verify_def Date_now_def split: sum.splits)

text \<open>What makes the \<open>try\<close> block of \<open>verify\<close> throw.\<close>

lemma verify_try_throws:
  assumes "isl (base64_to_bytes (sg_value sg)) \<or> isl (base64_to_bytes (sg_publicKey sg))
      \<or> (\<exists>keyData. base64_to_bytes (sg_publicKey sg) = Inr keyData
            \<and> isl (subtle_importSpki P keyData))"
  shows "\<exists>err. verify_try P sg = Inl err"
proof (cases "base64_to_bytes (sg_publicKey sg)")
  case (Inl e)
  then show ?thesis by (simp add: verify_try_def)
next
  case (Inr keyData)
  note k = this
  show ?thesis
  proof (cases "subtle_importSpki P keyData")
    case (Inl e)
    with k show ?thesis by (simp add: verify_try_def)
  next
    case (Inr imported)
    with k assms have "isl (base64_to_bytes (sg_value sg))"
      by auto
    then obtain e where "base64_to_bytes (sg_value sg) = Inl e"
      by (cases "base64_to_bytes (sg_value sg)") auto
    with k Inr show ?thesis by (simp add: verify_try_def)
  qed
qed

text \<open>
  C4, as the code has it. For a receipt that \<open>create\<close> returned, under a platform whose
  signatures are correct and ideal: changing \<open>signedPayload\<close> in any way, or changing
  \<open>signature.value\<close> so that it decodes to other bytes or no longer decodes, makes \<open>verify\<close>
  answer \<open>verified = false\<close>. On every platform \<open>verify\<close> answers and never throws: when
  its \<open>try\<close> block throws (Base64 that does not decode in \<open>signature.value\<close> or
  \<open>signature.publicKey\<close>, a key that does not import) the answer is flagged
  \<open>verificationError\<close> with \<open>verified = false\<close>, and a signature that merely does not verify
  gives \<open>verified = false\<close> without the flag.
\<close>

theorem tamper_detection:
  assumes "ideal_signatures P" and "sound_platform P" and "engine_ok P s"
    and "create P s options w = (Inr r, s1, w1)"
  shows "(\<forall>payload' e rid w'. payload' \<noteq> sg_signedPayload (rc_signature r) \<longrightarrow>
            \<not> verified (fst (verify P e rid
                (Some \<lparr>rd_signature = Some ((rc_signature r)\<lparr>sg_signedPayload := payload'\<rparr>)\<rparr>) w')))
    \<and> (\<forall>value' e rid w'.
          base64_to_bytes value' \<noteq> base64_to_bytes (sg_value (rc_signature r)) \<longrightarrow>
            \<not> verified (fst (verify P e rid
                (Some \<lparr>rd_signature = Some ((rc_signature r)\<lparr>sg_value := value'\<rparr>)\<rparr>) w')))
    \<and> (\<forall>sg e rid w'.
          (isl (base64_to_bytes (sg_value sg)) \<or> isl (base64_to_bytes (sg_publicKey sg))
           \<or> (\<exists>keyData. base64_to_bytes (sg_publicKey sg) = Inr keyData
                 \<and> isl (subtle_importSpki P keyData))) \<longrightarrow>
            verificationError (fst (verify P e rid (Some \<lparr>rd_signature = Some sg\<rparr>) w'))
            \<and> \<not> verified (fst (verify P e rid (Some \<lparr>rd_signature = Some sg\<rparr>) w')))
    \<and> (\<forall>sg e rid w'. verify_try P sg = Inr False \<longrightarrow>
            \<not> verificationError (fst (verify P e rid (Some \<lparr>rd_signature = Some sg\<rparr>) w'))
            \<and> \<not> verified (fst (verify P e rid (Some \<lparr>rd_signature = Some sg\<rparr>) w')))"
proof -
  from create_Inr [OF assms(4)] obtain sk pk nonce s0 wa wb where
    k: "getServiceKeyPair P s wa = (Inr (sk, pk), s0, wb)"
    and v: "sg_value (rc_signature r) =
        bufferToBase64 (subtle_sign P sk nonce (encode (sg_signedPayload (rc_signature r))))"
    and pk: "sg_publicKey (rc_signature r) = bufferToBase64 (subtle_exportSpki P pk)"
    by blast
  from assms(3) have keys: "\<forall>a b. keyPair s = Some (a, b) \<longrightarrow> matching P a b"
    by (simp add: engine_ok_def)
  from getServiceKeyPair_Inr [OF k keys] have m: "matching P sk pk"
    by simp
  from assms(2) m obtain imported where
    imp: "subtle_importSpki P (subtle_exportSpki P pk) = Inr imported"
    unfolding sound_platform_def by blast
  let ?data = "encode (sg_signedPayload (rc_signature r))"
  let ?sig = "subtle_sign P sk nonce ?data"
  note ideal = assms(1) [unfolded ideal_signatures_def, rule_format, OF m imp]
  have only: "subtle_verify P imported sigBytes data \<longleftrightarrow> sigBytes = subtle_sign P sk nonce data"
    for sigBytes data
    by (rule conjunct1 [OF ideal])
  have binds: "data = data'"
    if "subtle_sign P sk nonce data = subtle_sign P sk nonce data'" for data data'
    using conjunct2 [OF ideal [of nonce data], rule_format, OF that] .
  have payload: "\<not> verified (fst (verify P e rid
      (Some \<lparr>rd_signature = Some ((rc_signature r)\<lparr>sg_signedPayload := payload'\<rparr>)\<rparr>) w'))"
    if "payload' \<noteq> sg_signedPayload (rc_signature r)" for payload' e rid w'
  proof -
    from that have "encode payload' \<noteq> ?data"
      using encode_inj by blast
    with binds [of ?data "encode payload'"]
    have "?sig \<noteq> subtle_sign P sk nonce (encode payload')"
      by auto
    with only [of ?sig "encode payload'"]
    have "\<not> subtle_verify P imported ?sig (encode payload')"
      by simp
    then show ?thesis
      by (simp add: verify_supplied verify_try_def v pk base64_roundtrip imp)
  qed
  have "value": "\<not> verified (fst (verify P e rid
      (Some \<lparr>rd_signature = Some ((rc_signature r)\<lparr>sg_value := value'\<rparr>)\<rparr>) w'))"
    if "base64_to_bytes value' \<noteq> base64_to_bytes (sg_value (rc_signature r))" for value' e rid w'
  proof (cases "base64_to_bytes value'")
    case (Inl err)
    then show ?thesis
      by (simp add: verify_supplied verify_try_def pk base64_roundtrip imp)
  next
    case (Inr sigBytes)
    with that have "sigBytes \<noteq> ?sig"
      by (simp add: v base64_roundtrip)
    with only [of sigBytes ?data] have "\<not> subtle_verify P imported sigBytes ?data"
      by simp
    with Inr show ?thesis
      by (simp add: verify_supplied verify_try_def pk base64_roundtrip imp)
  qed
  have flagged: "verificationError (fst (verify P e rid (Some \<lparr>rd_signature = Some sg\<rparr>) w'))
      \<and> \<not> verified (fst (verify P e rid (Some \<lparr>rd_signature = Some sg\<rparr>) w'))"
    if "isl (base64_to_bytes (sg_value sg)) \<or> isl (base64_to_bytes (sg_publicKey sg))
        \<or> (\<exists>keyData. base64_to_bytes (sg_publicKey sg) = Inr keyData
              \<and> isl (subtle_importSpki P keyData))" for sg e rid w'
  proof -
    from verify_try_throws [OF that] obtain err where "verify_try P sg = Inl err"
      by blast
    then show ?thesis
      by (simp add: verify_supplied)
  qed
  have plain: "\<not> verificationError (fst (verify P e rid (Some \<lparr>rd_signature = Some sg\<rparr>) w'))
      \<and> \<not> verified (fst (verify P e rid (Some \<lparr>rd_signature = Some sg\<rparr>) w'))"
    if "verify_try P sg = Inr False" for sg e rid w'
    using that by (simp add: verify_supplied)
  show ?thesis
  proof (intro conjI allI impI)
    fix payload' e rid w'
    assume "payload' \<noteq> sg_signedPayload (rc_signature r)"
    then show "\<not> verified (fst (verify P e rid
        (Some \<lparr>rd_signature = Some ((rc_signature r)\<lparr>sg_signedPayload := payload'\<rparr>)\<rparr>) w'))"
      by (rule payload)
  next
    fix value' e rid w'
    assume "base64_to_bytes value' \<noteq> base64_to_bytes (sg_value (rc_signature r))"
    then show "\<not> verified (fst (verify P e rid
        (Some \<lparr>rd_signature = Some ((rc_signature r)\<lparr>sg_value := value'\<rparr>)\<rparr>) w'))"
      by (rule "value")
  next
    fix sg :: signature_block and e rid w'
    assume "isl (base64_to_bytes (sg_value sg)) \<or> isl (base64_to_bytes (sg_publicKey sg))
        \<or> (\<exists>keyData. base64_to_bytes (sg_publicKey sg) = Inr keyData
              \<and> isl (subtle_importSpki P keyData))"
    from flagged [OF this]
    show "verificationError (fst (verify P e rid (Some \<lparr>rd_signature = Some sg\<rparr>) w'))"
      and "\<not> verified (fst (verify P e rid (Some \<lparr>rd_signature = Some sg\<rparr>) w'))"
      by simp_all
  next
    fix sg e rid w'
    assume "verify_try P sg = Inr False"
    from plain [OF this]
    show "\<not> verificationError (fst (verify P e rid (Some \<lparr>rd_signature = Some sg\<rparr>) w'))"
      and "\<not> verified (fst (verify P e rid (Some \<lparr>rd_signature = Some sg\<rparr>) w'))"
      by simp_all
  qed
qed

theorem tamper_detection_witness:
  "ideal_signatures stub_platform \<and> sound_platform stub_platform
   \<and> engine_ok stub_platform (new_engine None)
   \<and> (\<exists>r s1 w1. create stub_platform (new_engine None) receipt_options test_world = (Inr r, s1, w1)
         \<and> sg_signedPayload (rc_signature r) @ ''x'' \<noteq> sg_signedPayload (rc_signature r)
         \<and> \<not> verified (fst (verify stub_platform s1 (rc_receiptId r)
               (Some \<lparr>rd_signature = Some ((rc_signature r)
                  \<lparr>sg_signedPayload := sg_signedPayload (rc_signature r) @ ''x''\<rparr>)\<rparr>) test_world)))"
proof -
  from create_returns [OF key_available_stub] obtain r s1 w1 where
    c: "create stub_platform (new_engine None) receipt_options test_world = (Inr r, s1, w1)"
    by blast
  have d: "sg_signedPayload (rc_signature r) @ ''x'' \<noteq> sg_signedPayload (rc_signature r)"
    by simp
  from tamper_detection [OF ideal_stub sound_stub engine_ok_new c]
  have "\<forall>payload' e rid w'. payload' \<noteq> sg_signedPayload (rc_signature r) \<longrightarrow>
            \<not> verified (fst (verify stub_platform e rid
                (Some \<lparr>rd_signature = Some ((rc_signature r)\<lparr>sg_signedPayload := payload'\<rparr>)\<rparr>) w'))"
    by (rule conjunct1)
  from this [rule_format, OF d, of s1 "rc_receiptId r" test_world] c d
    ideal_stub sound_stub engine_ok_new
  show ?thesis by blast
qed

text \<open>
  The claim as worded fails. The receipt that the stand-in platform issues has a Base64
  signature ending in \<open>bA==\<close>; changing its \<open>A\<close> to \<open>B\<close> changes only the four bits
  that \<open>atob\<close> discards, so the mutated record verifies as true. The decoded bytes being
  the same, this does not depend on the platform.
\<close>

lemma issued_by_stub:
  "map_sum error_message rc_signature
     (fst (create stub_platform (new_engine None) receipt_options test_world)) = Inr issued_signature"
  by code_simp

lemma tampered_is_other:
  "tampered_value \<noteq> sg_value issued_signature
   \<and> length tampered_value = length (sg_value issued_signature)"
  by code_simp

lemma tampered_same_bytes:
  "base64_to_bytes tampered_value = base64_to_bytes (sg_value issued_signature)"
  by code_simp

lemma tampered_same_verdict:
  "verify P e rid (Some \<lparr>rd_signature = Some (issued_signature\<lparr>sg_value := tampered_value\<rparr>)\<rparr>) w
   = verify P e rid (Some \<lparr>rd_signature = Some issued_signature\<rparr>) w"
  by (simp add: verify_supplied verify_try_def tampered_same_bytes Let_def split: sum.splits)

lemma issued_verifies:
  "verified (fst (verify stub_platform (new_engine None) ''DR-RS-031425364758''
      (Some \<lparr>rd_signature = Some issued_signature\<rparr>) test_world))"
  by code_simp

theorem tampered_signature_value_verifies:
  "map_sum error_message rc_signature
     (fst (create stub_platform (new_engine None) receipt_options test_world)) = Inr issued_signature
   \<and> tampered_value \<noteq> sg_value issued_signature
   \<and> length tampered_value = length (sg_value issued_signature)
   \<and> verified (fst (verify stub_platform (new_engine None) ''DR-RS-031425364758''
        (Some \<lparr>rd_signature = Some (issued_signature\<lparr>sg_value := tampered_value\<rparr>)\<rparr>) test_world))"
  using issued_by_stub tampered_is_other issued_verifies
  by (simp add: tampered_same_verdict)

end
